theory Spec2Isabelle
  imports Main "HOL-Library.AList"
begin

section \<open>JavaScript strings\<close>

text \<open>
  A JavaScript string is a sequence of UTF-16 code units; a code unit is modelled by its
  number. String literals of the source are written \<open>js ''...''\<close>.
\<close>

type_synonym jschar = nat
type_synonym jsstring = "jschar list"

definition js :: "string \<Rightarrow> jsstring" where
  "js s = map of_char s"

text \<open>
  The characters of the regular-expression class \<open>\s\<close>, which are also the characters
  that \<open>String.prototype.trim\<close> strips (WhiteSpace and LineTerminator of ECMAScript):
  TAB, LF, VT, FF, CR, SP, NBSP, U+1680, U+2000..U+200A, U+2028, U+2029, U+202F, U+205F,
  U+3000 and U+FEFF.
\<close>

definition is_white_space :: "jschar \<Rightarrow> bool" where
  "is_white_space c \<longleftrightarrow>
     (9 \<le> c \<and> c \<le> 13) \<or> c = 32 \<or> c = 160 \<or> c = 5760 \<or> (8192 \<le> c \<and> c \<le> 8202) \<or>
     c = 8232 \<or> c = 8233 \<or> c = 8239 \<or> c = 8287 \<or> c = 12288 \<or> c = 65279"

text \<open>The class \<open>\d\<close>: the ten ASCII digits.\<close>

definition is_digit :: "jschar \<Rightarrow> bool" where
  "is_digit c \<longleftrightarrow> 48 \<le> c \<and> c \<le> 57"

text \<open>\<open>String.prototype.trim\<close>: white space removed from both ends.\<close>

definition trim :: "jsstring \<Rightarrow> jsstring" where
  "trim s = rev (dropWhile is_white_space (rev (dropWhile is_white_space s)))"

text \<open>\<open>s.replace(/C/g, '')\<close> for a character class \<open>C\<close>: every match is deleted.\<close>

definition replace_class_global :: "(jschar \<Rightarrow> bool) \<Rightarrow> jsstring \<Rightarrow> jsstring" where
  "replace_class_global cls s = filter (\<lambda>c. \<not> cls c) s"

section \<open>Regular expressions\<close>

text \<open>
  The regular expressions of the source use character classes, concatenation and the
  quantifier \<open>+\<close>, anchored by \<open>^\<close> and \<open>$\<close> (no flags, so \<open>$\<close> is the end of
  the input). \<open>RegExp.prototype.test\<close> of such an anchored expression decides whether the
  whole input belongs to the expression's language; it is computed with derivatives.
\<close>

datatype rx =
    Zero
  | One
  | Class "jschar \<Rightarrow> bool"
  | Alt rx rx
  | Seq rx rx
  | Star rx

text \<open>The quantifier \<open>r+\<close>: one occurrence of \<open>r\<close>, then any number of them.\<close>

definition Plus :: "rx \<Rightarrow> rx" where
  "Plus r = Seq r (Star r)"

fun nullable :: "rx \<Rightarrow> bool" where
  "nullable Zero = False"
| "nullable One = True"
| "nullable (Class p) = False"
| "nullable (Alt r s) = (nullable r \<or> nullable s)"
| "nullable (Seq r s) = (nullable r \<and> nullable s)"
| "nullable (Star r) = True"

fun deriv :: "jschar \<Rightarrow> rx \<Rightarrow> rx" where
  "deriv c Zero = Zero"
| "deriv c One = Zero"
| "deriv c (Class p) = (if p c then One else Zero)"
| "deriv c (Alt r s) = Alt (deriv c r) (deriv c s)"
| "deriv c (Seq r s) =
     (if nullable r then Alt (Seq (deriv c r) s) (deriv c s) else Seq (deriv c r) s)"
| "deriv c (Star r) = Seq (deriv c r) (Star r)"

text \<open>\<open>/^r$/.test(s)\<close>.\<close>

definition rx_test :: "rx \<Rightarrow> jsstring \<Rightarrow> bool" where
  "rx_test r s = nullable (fold deriv s r)"

text \<open>The language of an expression, which \<open>rx_test\<close> is proved to decide.\<close>

definition conc :: "jsstring set \<Rightarrow> jsstring set \<Rightarrow> jsstring set" where
  "conc A B = {u @ v | u v. u \<in> A \<and> v \<in> B}"

inductive_set star :: "jsstring set \<Rightarrow> jsstring set" for A :: "jsstring set" where
  star_nil: "[] \<in> star A"
| star_app: "u \<in> A \<Longrightarrow> v \<in> star A \<Longrightarrow> u @ v \<in> star A"

fun lang :: "rx \<Rightarrow> jsstring set" where
  "lang Zero = {}"
| "lang One = {[]}"
| "lang (Class p) = {[c] | c. p c}"
| "lang (Alt r s) = lang r \<union> lang s"
| "lang (Seq r s) = conc (lang r) (lang s)"
| "lang (Star r) = star (lang r)"

section \<open>Validation of one field (\<open>SmartFormApp.validateField\<close>)\<close>

text \<open>
  What the validation reads and writes of a form control: its \<open>name\<close>, its \<open>type\<close>,
  whether it has the attribute \<open>required\<close>, its \<open>value\<close>, whether its class list
  contains \<open>error\<close>, and the text of the element with id \<open><name>Error\<close>
  (\<open>None\<close> when the document has no such element). \<open>fdefault\<close> is the value
  that \<open>form.reset()\<close> restores.
\<close>

record form_field =
  fname :: jsstring
  ftype :: jsstring
  frequired :: bool
  fvalue :: jsstring
  fdefault :: jsstring
  ferror :: bool
  ferrorText :: "jsstring option"

text \<open>\<open>/^[^\s@]+@[^\s@]+\.[^\s@]+$/\<close>\<close>

definition not_space_or_at :: "jschar \<Rightarrow> bool" where
  "not_space_or_at c \<longleftrightarrow> \<not> (is_white_space c \<or> c = 64)"

definition emailRegex :: rx where
  "emailRegex =
     Seq (Plus (Class not_space_or_at))
       (Seq (Class (\<lambda>c. c = 64))
         (Seq (Plus (Class not_space_or_at))
           (Seq (Class (\<lambda>c. c = 46))
             (Plus (Class not_space_or_at)))))"

text \<open>\<open>/^[\d\s\-\+\(\)]+$/\<close>: digits, white space, \<open>-\<close>, \<open>+\<close>, \<open>(\<close> and \<open>)\<close>.\<close>

definition phone_class :: "jschar \<Rightarrow> bool" where
  "phone_class c \<longleftrightarrow> is_digit c \<or> is_white_space c \<or> c = 45 \<or> c = 43 \<or> c = 40 \<or> c = 41"

definition phoneRegex :: rx where
  "phoneRegex = Plus (Class phone_class)"

text \<open>
  \<open>validateField\<close> returns \<open>isValid\<close>; the field is returned with its error class and
  error text as the function leaves them. The three checks are separate \<open>if\<close> statements
  that assign the same two variables, in the order of the source.
\<close>

definition validateField :: "form_field \<Rightarrow> bool \<times> form_field" where
  "validateField field =
     (let cleared = field\<lparr>ferror := False, ferrorText := map_option (\<lambda>_. []) (ferrorText field)\<rparr>;
          (isValid, errorMessage) = (True, []);
          (isValid, errorMessage) =
            (if frequired field \<and> trim (fvalue field) = []
             then (False, js ''This field is required'')
             else (isValid, errorMessage));
          (isValid, errorMessage) =
            (if ftype field = js ''email'' \<and> fvalue field \<noteq> [] \<and>
                \<not> rx_test emailRegex (fvalue field)
             then (False, js ''Please enter a valid email address'')
             else (isValid, errorMessage));
          (isValid, errorMessage) =
            (if ftype field = js ''tel'' \<and> fvalue field \<noteq> [] \<and>
                (\<not> rx_test phoneRegex (fvalue field) \<or>
                 length (replace_class_global (\<lambda>c. \<not> is_digit c) (fvalue field)) < 10)
             then (False, js ''Please enter a valid phone number'')
             else (isValid, errorMessage))
      in (isValid,
          if \<not> isValid
          then cleared\<lparr>ferror := True, ferrorText := map_option (\<lambda>_. errorMessage) (ferrorText cleared)\<rparr>
          else cleared))"

section \<open>Values, objects and errors\<close>

text \<open>
  The JavaScript values that the two classes store and pass on: \<open>undefined\<close>, \<open>null\<close>
  and strings. \<open>truthy\<close> is the conversion to a boolean that \<open>if\<close>, \<open>!\<close> and
  \<open>||\<close> apply.
\<close>

datatype jsval = Undefined | Null | Str jsstring

fun truthy :: "jsval \<Rightarrow> bool" where
  "truthy Undefined = False"
| "truthy Null = False"
| "truthy (Str s) = (s \<noteq> [])"

text \<open>
  A plain object keeps its properties in the order of their first assignment; assigning
  to a property it has replaces the value in place. Reading a missing property gives
  \<open>undefined\<close>.
\<close>

type_synonym js_object = "(jsstring \<times> jsval) list"

definition obj_set :: "jsstring \<Rightarrow> jsval \<Rightarrow> js_object \<Rightarrow> js_object" where
  "obj_set k v obj = AList.update k v obj"

definition obj_get :: "js_object \<Rightarrow> jsstring \<Rightarrow> jsval" where
  "obj_get obj k = (case map_of obj k of None \<Rightarrow> Undefined | Some v \<Rightarrow> v)"

text \<open>An exception value: the \<open>name\<close> and the \<open>message\<close> of an \<open>Error\<close>.\<close>

record js_error =
  err_name :: jsstring
  err_message :: jsstring

definition Error :: "jsstring \<Rightarrow> js_error" where
  "Error m = \<lparr>err_name = js ''Error'', err_message = m\<rparr>"

text \<open>The decimal digits of a number, as string concatenation writes a non-negative integer.\<close>

fun decimal :: "nat \<Rightarrow> jsstring" where
  "decimal n = (if n < 10 then [48 + n] else decimal (n div 10) @ [48 + n mod 10])"

section \<open>The submission endpoint\<close>

text \<open>
  The request that \<open>fetch\<close> receives. Its body is \<open>JSON.stringify(data)\<close>; the model
  keeps the object that this text encodes.
\<close>

record request =
  url :: jsstring
  rmethod :: jsstring
  headers :: "(jsstring \<times> jsstring) list"
  body :: js_object

text \<open>
  Modelled from the spec: the type of the endpoint's response bodies, which the source
  does not declare (the endpoint is not part of the repository). A parsed body is one of
  \<open>{success: true, data: {submissionId, timestamp, message}}\<close> and
  \<open>{success: false, message?}\<close>; these are the properties that \<open>handleFormSubmit\<close>
  reads, and the first is the shape that \<open>submitData\<close> itself builds.
\<close>

record submission_data =
  submissionId :: jsstring
  timestamp :: jsval
  message :: jsstring

datatype api_response = Success submission_data | Failure "jsstring option"

text \<open>
  An HTTP response: its status and what \<open>response.json()\<close> gives, a parsed body or the
  error it rejects with. \<open>response.ok\<close> holds for the statuses 200 to 299.
\<close>

record http_response =
  status :: nat
  json :: "js_error + api_response"

definition ok :: "http_response \<Rightarrow> bool" where
  "ok response \<longleftrightarrow> 200 \<le> status response \<and> status response \<le> 299"

text \<open>
  What a submission reads from its environment: \<open>new Date().toISOString()\<close> when the
  record is assembled, \<open>Date.now()\<close> when the fallback is built, the outcome of
  \<open>fetch\<close> for a request (\<open>Inl\<close>: the promise rejects), and the entry list that
  the browser's \<open>new FormData(form)\<close> constructs for the form. The browser decides
  which controls contribute an entry (none for an unchecked checkbox or radio button, a
  disabled control or a control without a name, several for a multiple selection), so the
  constructor is taken from the environment. The form has no file inputs: the value of
  every entry is a string.
\<close>

record env =
  iso_now :: jsstring
  epoch_now :: nat
  fetch :: "request \<Rightarrow> js_error + http_response"
  formData :: "form_field list \<Rightarrow> (jsstring \<times> jsstring) list"

definition API_ENDPOINT :: jsstring where
  "API_ENDPOINT =
     js ''https://script.google.com/macros/s/AKfycbxTZP93ECiJz3Fl7QdIi1U1ckw5z3N67B0g5EIAiMZgGqlS8suM7qIyO-Jd04xBCf-X/exec''"

section \<open>The page: both controllers and what they do to the outside\<close>

text \<open>
  A media stream is the list of its tracks. The effects that leave the two objects are
  recorded in the order they happen: a camera request, a track stopped, a call of
  \<open>smartFormApp.onImageCaptured\<close>, a \<open>fetch\<close>, a call of \<open>showLoading\<close> and an
  error notification added to the document. Console output and the timer that removes a
  notification after five seconds are not part of the model.
\<close>

type_synonym track = nat
type_synonym media_stream = "track list"

datatype effect =
    GetUserMedia nat nat jsstring
  | TrackStop track
  | ImageCaptured jsval
  | Fetch request
  | ShowLoading bool
  | ShowError jsstring

record CameraApp =
  stream :: "media_stream option"
  isCaptured :: bool
  video_srcObject :: "media_stream option"
  video_onloadedmetadata :: bool
  video_hidden :: bool
  capturedImage_src :: jsval
  capturedImage_hidden :: bool
  startCameraBtn_hidden :: bool
  startCameraBtn_disabled :: bool
  capturePhotoBtn_hidden :: bool
  retakePhotoBtn_hidden :: bool
  cameraStatus_text :: jsstring
  cameraStatus_color :: jsstring

text \<open>
  \<open>form\<close> holds the controls of the form in document order; the required ones are what
  \<open>querySelectorAll('[required]')\<close> selects.
\<close>

record SmartFormApp =
  form :: "form_field list"
  capturedImageData :: jsval
  submitBtn_disabled :: bool
  loadingOverlay_hidden :: bool
  successModal_hidden :: bool
  submissionDetails :: "submission_data option"

text \<open>
  \<open>window.cameraApp\<close> and \<open>window.smartFormApp\<close> are \<open>None\<close> as long as the
  script that creates them has not run.
\<close>

record window =
  cameraApp :: "CameraApp option"
  smartFormApp :: "SmartFormApp option"
  effects :: "effect list"

definition emit :: "effect \<Rightarrow> window \<Rightarrow> window" where
  "emit e w = w\<lparr>effects := effects w @ [e]\<rparr>"

section \<open>SmartFormApp\<close>

text \<open>
  \<open>checkFormValidity\<close>: the \<open>forEach\<close> over the required fields clears the flag
  \<open>allValid\<close>, then the image check, then the submit button.
\<close>

definition checkFormValidity :: "SmartFormApp \<Rightarrow> bool \<times> SmartFormApp" where
  "checkFormValidity this =
     (let requiredFields = filter frequired (form this);
          allValid = True;
          allValid = fold (\<lambda>field allValid.
                       if trim (fvalue field) = [] \<or> ferror field then False else allValid)
                     requiredFields allValid;
          allValid = (if \<not> truthy (capturedImageData this) then False else allValid)
      in (allValid, this\<lparr>submitBtn_disabled := \<not> allValid\<rparr>))"

text \<open>
  The listeners that \<open>setupFormValidation\<close> puts on every required field. \<open>blur\<close>
  validates the field. \<open>input\<close> follows a change of the field's value: it validates the
  field if it is marked, and recomputes the submit button.
\<close>

definition on_blur :: "nat \<Rightarrow> SmartFormApp \<Rightarrow> SmartFormApp" where
  "on_blur i this =
     (if i < length (form this) \<and> frequired (form this ! i)
      then this\<lparr>form := (form this)[i := snd (validateField (form this ! i))]\<rparr>
      else this)"

definition on_input :: "nat \<Rightarrow> jsstring \<Rightarrow> SmartFormApp \<Rightarrow> SmartFormApp" where
  "on_input i v this =
     (if i < length (form this)
      then
        (let field = (form this ! i)\<lparr>fvalue := v\<rparr>;
             this = this\<lparr>form := (form this)[i := field]\<rparr>
         in if frequired field
            then
              (let this = (if ferror field
                           then this\<lparr>form := (form this)[i := snd (validateField field)]\<rparr>
                           else this)
               in snd (checkFormValidity this))
            else this)
      else this)"

text \<open>
  \<open>getFormData\<close>: the entries of \<open>new FormData(this.form)\<close> are assigned to an empty
  object in order, then \<open>timestamp\<close> and \<open>imageData\<close>.
\<close>

definition getFormData :: "env \<Rightarrow> SmartFormApp \<Rightarrow> js_object" where
  "getFormData e this =
     (let formData = formData e (form this);
          data = [];
          data = fold (\<lambda>(key, val) data. obj_set key (Str val) data) formData data;
          data = obj_set (js ''timestamp'') (Str (iso_now e)) data;
          data = obj_set (js ''imageData'') (capturedImageData this) data
      in data)"

text \<open>
  \<open>submitData\<close>. The body of its \<open>try\<close> either returns the parsed response or throws:
  \<open>fetch\<close> rejects, the status is not 2xx, or \<open>response.json()\<close> rejects. The
  \<open>catch\<close> turns every exception into the simulated response. The result is \<open>Inr\<close>
  when the promise of the \<open>async\<close> function is fulfilled and \<open>Inl\<close> when it is
  rejected.
\<close>

definition submit_request :: "js_object \<Rightarrow> request" where
  "submit_request data =
     \<lparr>url = API_ENDPOINT, rmethod = js ''POST'',
      headers = [(js ''Content-Type'', js ''application/json'')],
      body = data\<rparr>"

definition submitData_try :: "env \<Rightarrow> js_object \<Rightarrow> js_error + api_response" where
  "submitData_try e data =
     (case fetch e (submit_request data) of
        Inl error \<Rightarrow> Inl error
      | Inr response \<Rightarrow>
          if \<not> ok response
          then Inl (Error (js ''HTTP error! status: '' @ decimal (status response)))
          else json response)"

definition simulated_response :: "env \<Rightarrow> js_object \<Rightarrow> api_response" where
  "simulated_response e data =
     Success \<lparr>submissionId = js ''SUB_'' @ decimal (epoch_now e),
              timestamp = obj_get data (js ''timestamp''),
              message = js ''Data submitted successfully''\<rparr>"

definition submitData :: "env \<Rightarrow> js_object \<Rightarrow> window \<Rightarrow> (js_error + api_response) \<times> window" where
  "submitData e data w =
     (let w = emit (Fetch (submit_request data)) w
      in case submitData_try e data of
           Inl error \<Rightarrow> (Inr (simulated_response e data), w)
         | Inr response \<Rightarrow> (Inr response, w))"

definition showSuccess :: "submission_data \<Rightarrow> window \<Rightarrow> window" where
  "showSuccess d w =
     w\<lparr>smartFormApp :=
         map_option (\<lambda>this. this\<lparr>submissionDetails := Some d, successModal_hidden := False\<rparr>)
           (smartFormApp w)\<rparr>"

definition showError :: "jsstring \<Rightarrow> window \<Rightarrow> window" where
  "showError msg w = emit (ShowError msg) w"

definition showLoading :: "bool \<Rightarrow> window \<Rightarrow> window" where
  "showLoading show w =
     emit (ShowLoading show)
       (w\<lparr>smartFormApp :=
            map_option (\<lambda>this. this\<lparr>loadingOverlay_hidden := \<not> show\<rparr>) (smartFormApp w)\<rparr>)"

text \<open>
  \<open>handleFormSubmit\<close>, run to its end with the outcome of the request (the handler is
  not interleaved with other events while it awaits). \<open>thrown\<close> is the
  exception that reaches the \<open>catch\<close>: a rejection of \<open>submitData\<close>, or the \<open>Error\<close>
  thrown for a response whose \<open>success\<close> is false. \<open>finally\<close> hides the overlay.
\<close>

definition message_or :: "jsstring option \<Rightarrow> jsstring \<Rightarrow> jsstring" where
  "message_or m fallback = (case m of None \<Rightarrow> fallback | Some s \<Rightarrow> if s = [] then fallback else s)"

definition handleFormSubmit :: "env \<Rightarrow> window \<Rightarrow> window" where
  "handleFormSubmit e w =
     (case smartFormApp w of
        None \<Rightarrow> w
      | Some this \<Rightarrow>
          (let (allValid, this) = checkFormValidity this;
               w = w\<lparr>smartFormApp := Some this\<rparr>
           in if \<not> allValid
              then showError (js ''Please complete all required fields and capture a photo'') w
              else
                (let w = showLoading True w;
                     formData = getFormData e this;
                     (response, w) = submitData e formData w;
                     (thrown, w) =
                       (case response of
                          Inl error \<Rightarrow> (Some error, w)
                        | Inr (Success d) \<Rightarrow> (None, showSuccess d w)
                        | Inr (Failure m) \<Rightarrow>
                            (Some (Error (message_or m (js ''Submission failed''))), w));
                     w = (case thrown of
                            None \<Rightarrow> w
                          | Some error \<Rightarrow>
                              showError (message_or (Some (err_message error))
                                           (js ''An error occurred during submission'')) w)
                 in showLoading False w)))"

text \<open>\<open>onImageCaptured\<close>, the method the camera module calls.\<close>

definition onImageCaptured :: "jsval \<Rightarrow> window \<Rightarrow> window" where
  "onImageCaptured imageData w =
     (case smartFormApp w of
        None \<Rightarrow> w
      | Some this \<Rightarrow>
          (emit (ImageCaptured imageData) w)
            \<lparr>smartFormApp := Some (snd (checkFormValidity (this\<lparr>capturedImageData := imageData\<rparr>)))\<rparr>)"

section \<open>CameraApp\<close>

text \<open>
  \<open>updateStatus\<close> sets the text and the colour of the status line; its class name is
  always \<open>camera-status\<close> and is left out.
\<close>

definition updateStatus :: "jsstring \<Rightarrow> jsstring \<Rightarrow> CameraApp \<Rightarrow> CameraApp" where
  "updateStatus msg type this =
     this\<lparr>cameraStatus_text := msg,
          cameraStatus_color :=
            (if type = js ''error'' then js ''var(--google-red)'' else js ''var(--text-secondary)'')\<rparr>"

definition showStartControls :: "CameraApp \<Rightarrow> CameraApp" where
  "showStartControls this =
     this\<lparr>startCameraBtn_hidden := False, capturePhotoBtn_hidden := True,
          retakePhotoBtn_hidden := True\<rparr>"

definition showCaptureControls :: "CameraApp \<Rightarrow> CameraApp" where
  "showCaptureControls this =
     this\<lparr>startCameraBtn_hidden := True, capturePhotoBtn_hidden := False,
          retakePhotoBtn_hidden := True\<rparr>"

definition showRetakeControls :: "CameraApp \<Rightarrow> CameraApp" where
  "showRetakeControls this =
     this\<lparr>startCameraBtn_hidden := True, capturePhotoBtn_hidden := True,
          retakePhotoBtn_hidden := False\<rparr>"

text \<open>\<open>checkCameraSupport\<close>; \<open>supported\<close> says whether \<open>getUserMedia\<close> exists.\<close>

definition checkCameraSupport :: "bool \<Rightarrow> CameraApp \<Rightarrow> bool \<times> CameraApp" where
  "checkCameraSupport supported this =
     (if \<not> supported
      then (False, (updateStatus (js ''Camera not supported in this browser'') (js ''error'') this)
                     \<lparr>startCameraBtn_disabled := True\<rparr>)
      else (True, this))"

text \<open>
  \<open>startCamera\<close>, run to its end with the outcome of \<open>getUserMedia\<close>: a stream, or
  the error it rejects with. The handler it installs on the video runs when the metadata
  have loaded (\<open>onloadedmetadata\<close>).
\<close>

definition startCamera :: "js_error + media_stream \<Rightarrow> window \<Rightarrow> window" where
  "startCamera acquired w =
     (case cameraApp w of
        None \<Rightarrow> w
      | Some this \<Rightarrow>
          (let this = updateStatus (js ''Requesting camera access...'') (js ''info'') this;
               w = emit (GetUserMedia 1280 960 (js ''user'')) w
           in case acquired of
                Inr s \<Rightarrow>
                  w\<lparr>cameraApp :=
                      Some (this\<lparr>stream := Some s, video_srcObject := Some s,
                                 video_onloadedmetadata := True\<rparr>)\<rparr>
              | Inl error \<Rightarrow>
                  (let errorMessage = js ''Failed to access camera'';
                       errorMessage =
                         (if err_name error = js ''NotAllowedError''
                          then js ''Camera access denied. Please allow camera access and try again.''
                          else if err_name error = js ''NotFoundError''
                          then js ''No camera found on this device.''
                          else if err_name error = js ''NotReadableError''
                          then js ''Camera is already in use by another application.''
                          else errorMessage)
                   in w\<lparr>cameraApp := Some (updateStatus errorMessage (js ''error'') this)\<rparr>)))"

definition onloadedmetadata :: "window \<Rightarrow> window" where
  "onloadedmetadata w =
     (case cameraApp w of
        None \<Rightarrow> w
      | Some this \<Rightarrow>
          if video_onloadedmetadata this
          then w\<lparr>cameraApp :=
                  Some (showCaptureControls
                         (updateStatus
                           (js ''Camera ready - Position yourself and click Capture Photo'')
                           (js ''info'') this))\<rparr>
          else w)"

text \<open>
  \<open>capturePhoto\<close>; \<open>shot\<close> is what drawing the frame and \<open>canvas.toDataURL\<close> give:
  the encoded image, or the exception one of them throws.
\<close>

definition capturePhoto :: "js_error + jsstring \<Rightarrow> window \<Rightarrow> window" where
  "capturePhoto shot w =
     (case cameraApp w of
        None \<Rightarrow> w
      | Some this \<Rightarrow>
          (case shot of
             Inl error \<Rightarrow>
               w\<lparr>cameraApp := Some (updateStatus (js ''Failed to capture photo'') (js ''error'') this)\<rparr>
           | Inr imageData \<Rightarrow>
               (let this = this\<lparr>capturedImage_src := Str imageData, capturedImage_hidden := False,
                               video_hidden := True, isCaptured := True\<rparr>;
                    this = showRetakeControls this;
                    this = updateStatus (js ''Photo captured successfully!'') (js ''info'') this;
                    w = w\<lparr>cameraApp := Some this\<rparr>
                in if smartFormApp w \<noteq> None then onImageCaptured (Str imageData) w else w)))"

definition retakePhoto :: "window \<Rightarrow> window" where
  "retakePhoto w =
     (case cameraApp w of
        None \<Rightarrow> w
      | Some this \<Rightarrow>
          (let this = this\<lparr>capturedImage_hidden := True, video_hidden := False, isCaptured := False\<rparr>;
               this = showCaptureControls this;
               this = updateStatus (js ''Position yourself and click Capture Photo'') (js ''info'') this;
               w = w\<lparr>cameraApp := Some this\<rparr>
           in if smartFormApp w \<noteq> None then onImageCaptured Null w else w))"

text \<open>
  \<open>resetCamera\<close>. The status text is \<open>Click "Start Camera" to begin\<close>; 34 is the
  double quote.
\<close>

definition resetCamera :: "window \<Rightarrow> window" where
  "resetCamera w =
     (case cameraApp w of
        None \<Rightarrow> w
      | Some this \<Rightarrow>
          (let (this, w) =
                 (case stream this of
                    None \<Rightarrow> (this, w)
                  | Some s \<Rightarrow> (this\<lparr>stream := None\<rparr>, fold (\<lambda>track. emit (TrackStop track)) s w));
               this = this\<lparr>video_hidden := False, capturedImage_hidden := True, isCaptured := False\<rparr>;
               this = showStartControls this;
               this = updateStatus (js ''Click '' @ [34] @ js ''Start Camera'' @ [34] @ js '' to begin'')
                        (js ''info'') this;
               this = this\<lparr>video_srcObject := None\<rparr>
           in w\<lparr>cameraApp := Some this\<rparr>))"

definition destroy :: "window \<Rightarrow> window" where
  "destroy w = resetCamera w"

text \<open>The listener for \<open>beforeunload\<close>.\<close>

definition beforeunload :: "window \<Rightarrow> window" where
  "beforeunload w = (if cameraApp w \<noteq> None then destroy w else w)"

section \<open>Reset of the form\<close>

text \<open>
  \<open>handleFormReset\<close>: \<open>form.reset()\<close> restores the default values; the error marks
  and the error texts of the form are cleared (the elements of class \<open>error-message\<close>
  are the error texts of the fields); the camera is reset when there is one.
\<close>

definition handleFormReset :: "window \<Rightarrow> window" where
  "handleFormReset w =
     (case smartFormApp w of
        None \<Rightarrow> w
      | Some this \<Rightarrow>
          (let this = this\<lparr>form := map (\<lambda>field. field\<lparr>fvalue := fdefault field\<rparr>) (form this)\<rparr>;
               this = this\<lparr>capturedImageData := Null\<rparr>;
               this = this\<lparr>form := map (\<lambda>field. field\<lparr>ferror := False\<rparr>) (form this)\<rparr>;
               this = this\<lparr>form := map (\<lambda>field. field\<lparr>ferrorText := map_option (\<lambda>_. []) (ferrorText field)\<rparr>)
                                    (form this)\<rparr>;
               this = this\<lparr>submitBtn_disabled := True\<rparr>;
               w = w\<lparr>smartFormApp := Some this\<rparr>
           in if cameraApp w \<noteq> None then resetCamera w else w))"

definition closeModal :: "window \<Rightarrow> window" where
  "closeModal w =
     w\<lparr>smartFormApp := map_option (\<lambda>this. this\<lparr>successModal_hidden := True\<rparr>) (smartFormApp w)\<rparr>"

definition handleNewSubmission :: "window \<Rightarrow> window" where
  "handleNewSubmission w = closeModal (handleFormReset w)"

section \<open>The notions of the specification\<close>

text \<open>
  The capture states: Idle holds no stream; with a stream, Captured after a capture and
  Active before.
\<close>

datatype CaptureState = Idle | Active | Captured

definition capture_state :: "CameraApp \<Rightarrow> CaptureState" where
  "capture_state this =
     (if stream this = None then Idle else if isCaptured this then Captured else Active)"

text \<open>A field is valid under the validation rules when \<open>validateField\<close> accepts it.\<close>

definition field_valid :: "form_field \<Rightarrow> bool" where
  "field_valid field = fst (validateField field)"

text \<open>
  What \<open>checkFormValidity\<close> asks of a required field instead: a value that is not blank,
  and no error mark left by an earlier validation.
\<close>

definition field_unmarked :: "form_field \<Rightarrow> bool" where
  "field_unmarked field \<longleftrightarrow> trim (fvalue field) \<noteq> [] \<and> \<not> ferror field"

text \<open>
  The shape \<open>local@domain.tld\<close> in the words of the specification: one or more
  characters that are neither white space nor \<open>@\<close>, then \<open>@\<close>, then one or more such
  characters, then \<open>.\<close>, then one or more such characters.
\<close>

definition email_shape :: "jsstring \<Rightarrow> bool" where
  "email_shape s \<longleftrightarrow>
     (\<exists>l d t. s = l @ [64] @ d @ [46] @ t \<and> l \<noteq> [] \<and> d \<noteq> [] \<and> t \<noteq> [] \<and>
        list_all not_space_or_at l \<and> list_all not_space_or_at d \<and> list_all not_space_or_at t)"

text \<open>
  The characters a phone number may contain in the words of the specification: digits,
  spaces, hyphens, parentheses and plus signs.
\<close>

definition phone_char_spec :: "jschar \<Rightarrow> bool" where
  "phone_char_spec c \<longleftrightarrow> is_digit c \<or> c = 32 \<or> c = 45 \<or> c = 40 \<or> c = 41 \<or> c = 43"

definition phone_shape_spec :: "jsstring \<Rightarrow> bool" where
  "phone_shape_spec s \<longleftrightarrow> list_all phone_char_spec s \<and> 10 \<le> length (filter is_digit s)"

text \<open>The same with every white-space character in the place of the space.\<close>

definition phone_shape :: "jsstring \<Rightarrow> bool" where
  "phone_shape s \<longleftrightarrow> list_all phone_class s \<and> 10 \<le> length (filter is_digit s)"

text \<open>
  Global validity in the words of the specification: every required field is valid under
  the validation rules, and an image is present.
\<close>

definition all_required_valid :: "SmartFormApp \<Rightarrow> bool" where
  "all_required_valid this = list_all field_valid (filter frequired (form this))"

definition image_present :: "SmartFormApp \<Rightarrow> bool" where
  "image_present this = truthy (capturedImageData this)"

text \<open>Global validity as \<open>checkFormValidity\<close> computes it.\<close>

definition submit_ready :: "SmartFormApp \<Rightarrow> bool" where
  "submit_ready this \<longleftrightarrow>
     list_all field_unmarked (filter frequired (form this)) \<and> truthy (capturedImageData this)"


definition every_control :: "form_field list \<Rightarrow> (jsstring \<times> jsstring) list" where
  "every_control controls = map (\<lambda>field. (fname field, fvalue field)) controls"

text \<open>
  The effects that a step from \<open>w\<close> to \<open>w'\<close> adds, and the requests among a list of
  effects.
\<close>

definition new_effects :: "window \<Rightarrow> window \<Rightarrow> effect list" where
  "new_effects w w' = drop (length (effects w)) (effects w')"

fun requests_of :: "effect list \<Rightarrow> request list" where
  "requests_of [] = []"
| "requests_of (Fetch r # es) = r # requests_of es"
| "requests_of (e # es) = requests_of es"

section \<open>Sample states\<close>

text \<open>
  A page for the closed theorems below: a form with a name and a phone number, both
  required and filled in, and a camera that holds a stream of two tracks and has captured
  a photo, which the form has received.
\<close>

definition sample_image :: jsstring where
  "sample_image = js ''data:image/jpeg;base64,AAAA''"

definition sample_app :: SmartFormApp where
  "sample_app =
     \<lparr>form =
        [\<lparr>fname = js ''name'', ftype = js ''text'', frequired = True, fvalue = js ''Ann'',
          fdefault = [], ferror = False, ferrorText = Some []\<rparr>,
         \<lparr>fname = js ''phone'', ftype = js ''tel'', frequired = True,
          fvalue = js ''(555) 123-4567'', fdefault = [], ferror = False,
          ferrorText = Some []\<rparr>],
      capturedImageData = Str sample_image,
      submitBtn_disabled = False, loadingOverlay_hidden = True,
      successModal_hidden = True, submissionDetails = None\<rparr>"

definition sample_camera :: CameraApp where
  "sample_camera =
     \<lparr>stream = Some [0, 1], isCaptured = True, video_srcObject = Some [0, 1],
      video_onloadedmetadata = True, video_hidden = True,
      capturedImage_src = Str sample_image, capturedImage_hidden = False,
      startCameraBtn_hidden = True, startCameraBtn_disabled = False,
      capturePhotoBtn_hidden = True, retakePhotoBtn_hidden = False,
      cameraStatus_text = js ''Photo captured successfully!'',
      cameraStatus_color = js ''var(--text-secondary)''\<rparr>"

definition sample_window :: window where
  "sample_window = \<lparr>cameraApp = Some sample_camera, smartFormApp = Some sample_app, effects = []\<rparr>"

text \<open>
  Two environments: one where \<open>fetch\<close> rejects, and one where the endpoint answers 200
  with \<open>{success: false, message: 'Sheet is full'}\<close>. In both, every control of the
  form contributes an entry to \<open>FormData\<close>.
\<close>

definition offline_env :: env where
  "offline_env =
     \<lparr>iso_now = js ''2026-01-01T00:00:00.000Z'', epoch_now = 1767225600000,
      fetch = (\<lambda>_. Inl \<lparr>err_name = js ''TypeError'', err_message = js ''Failed to fetch''\<rparr>),
      formData = every_control\<rparr>"

definition refusing_env :: env where
  "refusing_env =
     \<lparr>iso_now = js ''2026-01-01T00:00:00.000Z'', epoch_now = 1767225600000,
      fetch = (\<lambda>_. Inr \<lparr>status = 200, json = Inr (Failure (Some (js ''Sheet is full'')))\<rparr>),
      formData = every_control\<rparr>"

section \<open>Properties of the regular expressions\<close>

lemma nullable_iff: "nullable r \<longleftrightarrow> [] \<in> lang r"
  by (induction r) (auto simp: conc_def intro: star.intros)

lemma conc_Cons:
  "c # w \<in> conc A B \<longleftrightarrow>
     ([] \<in> A \<and> c # w \<in> B) \<or> (\<exists>u v. w = u @ v \<and> c # u \<in> A \<and> v \<in> B)"
  unfolding conc_def by (auto simp: Cons_eq_append_conv) 

lemma star_Cons_elim:
  assumes "x \<in> star A" and "x = c # w"
  shows "\<exists>u v. w = u @ v \<and> c # u \<in> A \<and> v \<in> star A"
  using assms
proof (induction arbitrary: c w rule: star.induct)
  case star_nil
  then show ?case by simp
next
  case (star_app u v)
  show ?case
  proof (cases u)
    case Nil
    with star_app show ?thesis by simp
  next
    case (Cons a u')
    with star_app.prems have "a = c" and "w = u' @ v" by simp_all
    with Cons star_app.hyps show ?thesis by blast
  qed
qed

lemma star_Cons:
  "c # w \<in> star A \<longleftrightarrow> (\<exists>u v. w = u @ v \<and> c # u \<in> A \<and> v \<in> star A)"
proof
  assume "c # w \<in> star A"
  then show "\<exists>u v. w = u @ v \<and> c # u \<in> A \<and> v \<in> star A"
    by (rule star_Cons_elim) simp
next
  assume "\<exists>u v. w = u @ v \<and> c # u \<in> A \<and> v \<in> star A"
  then obtain u v where "w = u @ v" "c # u \<in> A" "v \<in> star A" by blast
  then have "(c # u) @ v \<in> star A" by (intro star.star_app)
  with \<open>w = u @ v\<close> show "c # w \<in> star A" by simp
qed

lemma lang_deriv: "w \<in> lang (deriv c r) \<longleftrightarrow> c # w \<in> lang r"
proof (induction r arbitrary: w)
  case (Seq r1 r2)
  then show ?case
    by (auto simp: conc_Cons nullable_iff) (auto simp: conc_def)
next
  case (Star r)
  then show ?case
    by (auto simp: star_Cons conc_def)
qed auto

lemma fold_deriv: "nullable (fold deriv s r) \<longleftrightarrow> s \<in> lang r"
  by (induction s arbitrary: r) (simp_all add: nullable_iff lang_deriv)

lemma rx_test_iff: "rx_test r s \<longleftrightarrow> s \<in> lang r"
  by (simp add: rx_test_def fold_deriv)

lemma star_Class: "w \<in> star {[c] | c. p c} \<longleftrightarrow> list_all p w"
proof
  assume "w \<in> star {[c] | c. p c}"
  then show "list_all p w" by (induction rule: star.induct) auto
next
  assume "list_all p w"
  then show "w \<in> star {[c] | c. p c}"
  proof (induction w)
    case Nil
    show ?case by (rule star.star_nil)
  next
    case (Cons a w)
    then have "[a] @ w \<in> star {[c] | c. p c}" by (intro star.star_app) auto
    then show ?case by simp
  qed
qed

lemma lang_Plus_Class: "w \<in> lang (Plus (Class p)) \<longleftrightarrow> w \<noteq> [] \<and> list_all p w"
proof (cases w)
  case Nil
  then show ?thesis by (simp add: Plus_def conc_def)
next
  case (Cons a v)
  then show ?thesis by (simp add: Plus_def conc_Cons star_Class)
qed

lemma conc_iff: "w \<in> conc A B \<longleftrightarrow> (\<exists>u v. w = u @ v \<and> u \<in> A \<and> v \<in> B)"
  by (auto simp: conc_def)

lemma lang_Seq_iff: "w \<in> lang (Seq r s) \<longleftrightarrow> (\<exists>u v. w = u @ v \<and> u \<in> lang r \<and> v \<in> lang s)"
  by (simp add: conc_iff)

lemma lang_Class_eq: "w \<in> lang (Class (\<lambda>c. c = a)) \<longleftrightarrow> w = [a]"
  by auto

lemma emailRegex_iff: "rx_test emailRegex s \<longleftrightarrow> email_shape s"
  unfolding rx_test_iff emailRegex_def email_shape_def
  by (simp only: lang_Seq_iff lang_Plus_Class lang_Class_eq) (auto; blast)

lemma phoneRegex_iff: "rx_test phoneRegex s \<longleftrightarrow> s \<noteq> [] \<and> list_all phone_class s"
  by (simp add: rx_test_iff phoneRegex_def lang_Plus_Class)

section \<open>Properties of the validation\<close>

lemma trim_Nil_iff: "trim s = [] \<longleftrightarrow> list_all is_white_space s"
proof (cases "dropWhile is_white_space s = []")
  case True
  have "trim s = []"
    unfolding trim_def True by simp
  moreover from True have "list_all is_white_space s"
    by (simp add: dropWhile_eq_Nil_conv list_all_iff)
  ultimately show ?thesis by simp
next
  case False
  then have "\<not> is_white_space (hd (dropWhile is_white_space s))"
    by (rule hd_dropWhile)
  moreover have "hd (dropWhile is_white_space s) \<in> set (dropWhile is_white_space s)"
    using False by simp
  ultimately have "dropWhile is_white_space (rev (dropWhile is_white_space s)) \<noteq> []"
    by (auto simp: dropWhile_eq_Nil_conv)
  moreover have "\<not> list_all is_white_space s"
    using False by (simp add: dropWhile_eq_Nil_conv list_all_iff)
  ultimately show ?thesis
    by (simp add: trim_def)
qed

lemma validateField_fst:
  "fst (validateField field) \<longleftrightarrow>
     \<not> (frequired field \<and> trim (fvalue field) = []) \<and>
     \<not> (ftype field = js ''email'' \<and> fvalue field \<noteq> [] \<and> \<not> rx_test emailRegex (fvalue field)) \<and>
     \<not> (ftype field = js ''tel'' \<and> fvalue field \<noteq> [] \<and>
        (\<not> rx_test phoneRegex (fvalue field) \<or>
         length (replace_class_global (\<lambda>c. \<not> is_digit c) (fvalue field)) < 10))"
  by (simp add: validateField_def Let_def)

lemma validateField_ferror: "ferror (snd (validateField field)) \<longleftrightarrow> \<not> fst (validateField field)"
  by (simp add: validateField_def Let_def)

lemma email_ne_tel: "js ''email'' \<noteq> js ''tel''"
  by (simp add: js_def)


lemma tel_ne_email: "js ''tel'' \<noteq> js ''email''"
  by (simp add: js_def)

lemma digit_not_white_space: "is_digit c \<Longrightarrow> \<not> is_white_space c"
  by (auto simp: is_digit_def is_white_space_def)

lemma replace_non_digits: "replace_class_global (\<lambda>c. \<not> is_digit c) s = filter is_digit s"
  by (simp add: replace_class_global_def)

lemma blank_no_digits: "list_all is_white_space s \<Longrightarrow> filter is_digit s = []"
  by (induction s) (auto dest: digit_not_white_space)

lemma email_shape_not_blank: "email_shape s \<Longrightarrow> \<not> list_all is_white_space s"
  by (auto simp: email_shape_def is_white_space_def)

lemma phone_shape_not_blank: "phone_shape s \<Longrightarrow> \<not> list_all is_white_space s"
  by (auto simp: phone_shape_def dest: blank_no_digits)

lemma phone_shape_not_Nil: "phone_shape s \<Longrightarrow> s \<noteq> []"
  by (auto simp: phone_shape_def)

lemma validateField_email:
  assumes "ftype field = js ''email''" and "fvalue field \<noteq> []"
  shows "fst (validateField field) \<longleftrightarrow> email_shape (fvalue field)"
  using assms email_shape_not_blank [of "fvalue field"]
  by (auto simp: validateField_fst email_ne_tel emailRegex_iff trim_Nil_iff)

lemma validateField_tel:
  assumes "ftype field = js ''tel''" and "fvalue field \<noteq> []"
  shows "fst (validateField field) \<longleftrightarrow> phone_shape (fvalue field)"
  using assms phone_shape_not_blank [of "fvalue field"]
  by (auto simp: validateField_fst tel_ne_email phoneRegex_iff trim_Nil_iff replace_non_digits
      phone_shape_def)

lemma validateField_message:
  "ferrorText (snd (validateField field)) =
     map_option (\<lambda>_.
       if ftype field = js ''tel'' \<and> fvalue field \<noteq> [] \<and>
          (\<not> rx_test phoneRegex (fvalue field) \<or>
           length (replace_class_global (\<lambda>c. \<not> is_digit c) (fvalue field)) < 10)
       then js ''Please enter a valid phone number''
       else if ftype field = js ''email'' \<and> fvalue field \<noteq> [] \<and>
          \<not> rx_test emailRegex (fvalue field)
       then js ''Please enter a valid email address''
       else if frequired field \<and> trim (fvalue field) = []
       then js ''This field is required''
       else []) (ferrorText field)"
  by (cases "ferrorText field") (auto simp: validateField_def Let_def email_ne_tel tel_ne_email)

section \<open>Email fields\<close>

text \<open>
  Claim C5. For every non-empty value, \<open>validateField\<close> accepts a field of type
  \<open>email\<close>, and leaves it without the error mark, if and only if the value has the shape
  \<open>email_shape\<close>: one or more characters that are neither white space nor \<open>@\<close>, then
  \<open>@\<close>, then one or more such characters, then \<open>.\<close>, then one or more such
  characters. The value \<open>a@b.co\<close> is accepted and \<open>a.b.com\<close> is rejected.
\<close>

theorem email_field_valid_iff_shape:
  assumes "ftype field = js ''email''" and "fvalue field \<noteq> []"
  shows "(fst (validateField field) \<longleftrightarrow> email_shape (fvalue field)) \<and>
         (ferror (snd (validateField field)) \<longleftrightarrow> \<not> email_shape (fvalue field)) \<and>
         (fvalue field = js ''a@b.co'' \<longrightarrow> fst (validateField field)) \<and>
         (fvalue field = js ''a.b.com'' \<longrightarrow> \<not> fst (validateField field))"
proof -
  have valid: "fst (validateField field) \<longleftrightarrow> email_shape (fvalue field)"
    using assms by (rule validateField_email)
  have yes: "rx_test emailRegex (js ''a@b.co'')"
    by (simp add: js_def rx_test_def emailRegex_def Plus_def not_space_or_at_def
        is_white_space_def)
  have no: "\<not> rx_test emailRegex (js ''a.b.com'')"
    by (simp add: js_def rx_test_def emailRegex_def Plus_def not_space_or_at_def
        is_white_space_def)
  from valid yes no show ?thesis
    by (simp add: validateField_ferror emailRegex_iff)
qed

theorem email_field_valid_iff_shape_witness:
  "ftype \<lparr>fname = js ''email'', ftype = js ''email'', frequired = True, fvalue = js ''a@b.co'',
          fdefault = [], ferror = False, ferrorText = Some []\<rparr> = js ''email'' \<and>
   fvalue \<lparr>fname = js ''email'', ftype = js ''email'', frequired = True, fvalue = js ''a@b.co'',
           fdefault = [], ferror = False, ferrorText = Some []\<rparr> \<noteq> [] \<and>
   fst (validateField \<lparr>fname = js ''email'', ftype = js ''email'', frequired = True,
          fvalue = js ''a@b.co'', fdefault = [], ferror = False, ferrorText = Some []\<rparr>) \<and>
   email_shape (js ''a@b.co'')"
proof -
  let ?F = "\<lparr>fname = js ''email'', ftype = js ''email'', frequired = True, fvalue = js ''a@b.co'',
             fdefault = [], ferror = False, ferrorText = Some []\<rparr>"
  have t: "ftype ?F = js ''email''" by simp
  have v: "fvalue ?F \<noteq> []" by (simp add: js_def)
  note main = email_field_valid_iff_shape [OF t v]
  from main [THEN conjunct2, THEN conjunct2, THEN conjunct1]
  have "fst (validateField ?F)"
    by simp
  moreover from this main [THEN conjunct1] have "email_shape (js ''a@b.co'')"
    by simp
  ultimately show ?thesis
    using t v by simp
qed

section \<open>Phone fields\<close>

lemma phone_char_spec_class: "phone_char_spec c \<Longrightarrow> phone_class c"
  by (auto simp: phone_char_spec_def phone_class_def is_white_space_def)

lemma phone_shape_spec_shape: "phone_shape_spec s \<Longrightarrow> phone_shape s"
  by (auto simp: phone_shape_spec_def phone_shape_def list_all_iff dest: phone_char_spec_class)

text \<open>
  Claim C6, as amended. For every non-empty value, \<open>validateField\<close> accepts a field of
  type \<open>tel\<close>, and leaves it without the error mark, if and only if the value contains
  only digits, white-space characters (every character of the class \<open>\s\<close>, not the
  space alone), hyphens, parentheses and plus signs, and at least 10 digits remain when
  all other characters are removed. Every value made of digits, spaces, hyphens,
  parentheses and plus signs with at least 10 digits is accepted. \<open>(555) 123-4567\<close> is
  accepted; \<open>12345\<close> and \<open>abc-def-ghij\<close> are rejected.
\<close>

theorem phone_field_valid_iff_shape:
  assumes "ftype field = js ''tel''" and "fvalue field \<noteq> []"
  shows "(fst (validateField field) \<longleftrightarrow> phone_shape (fvalue field)) \<and>
         (ferror (snd (validateField field)) \<longleftrightarrow> \<not> phone_shape (fvalue field)) \<and>
         (phone_shape_spec (fvalue field) \<longrightarrow> fst (validateField field)) \<and>
         (fvalue field = js ''(555) 123-4567'' \<longrightarrow> fst (validateField field)) \<and>
         (fvalue field = js ''12345'' \<longrightarrow> \<not> fst (validateField field)) \<and>
         (fvalue field = js ''abc-def-ghij'' \<longrightarrow> \<not> fst (validateField field))"
proof -
  have valid: "fst (validateField field) \<longleftrightarrow> phone_shape (fvalue field)"
    using assms by (rule validateField_tel)
  have yes: "phone_shape (js ''(555) 123-4567'')"
    by (simp add: phone_shape_def js_def phone_class_def is_digit_def is_white_space_def)
  have short: "\<not> phone_shape (js ''12345'')"
    by (simp add: phone_shape_def js_def is_digit_def)
  have letters: "\<not> phone_shape (js ''abc-def-ghij'')"
    by (simp add: phone_shape_def js_def is_digit_def)
  from valid yes short letters show ?thesis
    by (auto simp: validateField_ferror dest: phone_shape_spec_shape)
qed

theorem phone_field_valid_iff_shape_witness:
  "ftype \<lparr>fname = js ''phone'', ftype = js ''tel'', frequired = True,
          fvalue = js ''(555) 123-4567'', fdefault = [], ferror = False,
          ferrorText = Some []\<rparr> = js ''tel'' \<and>
   fvalue \<lparr>fname = js ''phone'', ftype = js ''tel'', frequired = True,
           fvalue = js ''(555) 123-4567'', fdefault = [], ferror = False,
           ferrorText = Some []\<rparr> \<noteq> [] \<and>
   fst (validateField \<lparr>fname = js ''phone'', ftype = js ''tel'', frequired = True,
          fvalue = js ''(555) 123-4567'', fdefault = [], ferror = False,
          ferrorText = Some []\<rparr>) \<and>
   phone_shape (js ''(555) 123-4567'')"
proof -
  let ?F = "\<lparr>fname = js ''phone'', ftype = js ''tel'', frequired = True,
             fvalue = js ''(555) 123-4567'', fdefault = [], ferror = False,
             ferrorText = Some []\<rparr>"
  have t: "ftype ?F = js ''tel''" by simp
  have v: "fvalue ?F \<noteq> []" by (simp add: js_def)
  note main = phone_field_valid_iff_shape [OF t v]
  from main [THEN conjunct2, THEN conjunct2, THEN conjunct2, THEN conjunct1]
  have "fst (validateField ?F)"
    by simp
  moreover from this main [THEN conjunct1] have "phone_shape (js ''(555) 123-4567'')"
    by simp
  ultimately show ?thesis
    using t v by simp
qed

text \<open>
  The claim as stated allows the space as the only white space. A value whose groups of
  digits are separated by tabs (character 9) is accepted by \<open>validateField\<close>, though it
  contains characters that are none of digit, space, hyphen, parenthesis or plus sign.
\<close>

theorem phone_tab_counterexample:
  "fst (validateField \<lparr>fname = js ''phone'', ftype = js ''tel'', frequired = True,
          fvalue = js ''555'' @ [9] @ js ''123'' @ [9] @ js ''4567'', fdefault = [],
          ferror = False, ferrorText = Some []\<rparr>) \<and>
   \<not> phone_shape_spec (js ''555'' @ [9] @ js ''123'' @ [9] @ js ''4567'')"
proof -
  have "phone_shape (js ''555'' @ [9] @ js ''123'' @ [9] @ js ''4567'')"
    by (simp add: phone_shape_def js_def phone_class_def is_digit_def is_white_space_def)
  moreover have "js ''555'' @ [9] @ js ''123'' @ [9] @ js ''4567'' \<noteq> []"
    by (simp add: js_def)
  ultimately have "fst (validateField \<lparr>fname = js ''phone'', ftype = js ''tel'',
      frequired = True, fvalue = js ''555'' @ [9] @ js ''123'' @ [9] @ js ''4567'',
      fdefault = [], ferror = False, ferrorText = Some []\<rparr>)"
    by (simp add: validateField_tel)
  moreover have "\<not> phone_shape_spec (js ''555'' @ [9] @ js ''123'' @ [9] @ js ''4567'')"
    by (simp add: phone_shape_spec_def js_def phone_char_spec_def is_digit_def)
  ultimately show ?thesis by simp
qed

section \<open>Required fields\<close>

text \<open>
  Claim C3, as amended. For every required field whose value is empty or consists only of
  white space, \<open>validateField\<close> rejects the field and marks it. The error text is the
  message of the last check that fails: \<open>Please enter a valid phone number\<close> for a
  \<open>tel\<close> field and \<open>Please enter a valid email address\<close> for an \<open>email\<close> field
  when the value is not empty (it is white space only), and \<open>This field is required\<close>
  in every other case. The later format checks overwrite the message of the required
  check; the required check does not take precedence.
\<close>

theorem required_blank_invalid:
  assumes "frequired field" and "trim (fvalue field) = []"
  shows "\<not> fst (validateField field) \<and> ferror (snd (validateField field)) \<and>
         ferrorText (snd (validateField field)) =
           map_option (\<lambda>_.
             if fvalue field \<noteq> [] \<and> ftype field = js ''tel''
             then js ''Please enter a valid phone number''
             else if fvalue field \<noteq> [] \<and> ftype field = js ''email''
             then js ''Please enter a valid email address''
             else js ''This field is required'') (ferrorText field)"
proof -
  from assms(2) have blank: "list_all is_white_space (fvalue field)"
    by (simp add: trim_Nil_iff)
  then have no_email: "\<not> rx_test emailRegex (fvalue field)"
    using email_shape_not_blank by (auto simp: emailRegex_iff)
  from blank have no_digits: "length (replace_class_global (\<lambda>c. \<not> is_digit c) (fvalue field)) < 10"
    by (simp add: replace_non_digits blank_no_digits)
  from assms have "\<not> fst (validateField field)"
    by (simp add: validateField_fst)
  moreover from this have "ferror (snd (validateField field))"
    by (simp add: validateField_ferror)
  moreover from assms no_email no_digits have "ferrorText (snd (validateField field)) =
           map_option (\<lambda>_.
             if fvalue field \<noteq> [] \<and> ftype field = js ''tel''
             then js ''Please enter a valid phone number''
             else if fvalue field \<noteq> [] \<and> ftype field = js ''email''
             then js ''Please enter a valid email address''
             else js ''This field is required'') (ferrorText field)"
    by (cases "ferrorText field") (auto simp: validateField_message)
  ultimately show ?thesis by simp
qed

theorem required_blank_invalid_witness:
  "frequired \<lparr>fname = js ''name'', ftype = js ''text'', frequired = True, fvalue = js ''  '',
             fdefault = [], ferror = False, ferrorText = Some []\<rparr> \<and>
   trim (fvalue \<lparr>fname = js ''name'', ftype = js ''text'', frequired = True, fvalue = js ''  '',
             fdefault = [], ferror = False, ferrorText = Some []\<rparr>) = [] \<and>
   \<not> fst (validateField \<lparr>fname = js ''name'', ftype = js ''text'', frequired = True,
             fvalue = js ''  '', fdefault = [], ferror = False, ferrorText = Some []\<rparr>) \<and>
   ferrorText (snd (validateField \<lparr>fname = js ''name'', ftype = js ''text'', frequired = True,
             fvalue = js ''  '', fdefault = [], ferror = False, ferrorText = Some []\<rparr>)) =
     Some (js ''This field is required'')"
proof -
  let ?F = "\<lparr>fname = js ''name'', ftype = js ''text'', frequired = True, fvalue = js ''  '',
             fdefault = [], ferror = False, ferrorText = Some []\<rparr>"
  have r: "frequired ?F" by simp
  have b: "trim (fvalue ?F) = []"
    by (simp add: trim_def js_def is_white_space_def)
  have ty: "ftype ?F \<noteq> js ''tel''" "ftype ?F \<noteq> js ''email''"
    by (simp_all add: js_def)
  note main = required_blank_invalid [OF r b]
  from main [THEN conjunct1] have "\<not> fst (validateField ?F)" .
  moreover from main [THEN conjunct2, THEN conjunct2] ty
  have "ferrorText (snd (validateField ?F)) = Some (js ''This field is required'')"
    by simp
  ultimately show ?thesis
    using r b by simp
qed

text \<open>
  The claim as stated gives every blank required field the message
  \<open>This field is required\<close>. A required \<open>tel\<close> field that holds one space fails the
  required check and the phone check, and shows the message of the phone check.
\<close>

theorem required_message_counterexample:
  "frequired \<lparr>fname = js ''phone'', ftype = js ''tel'', frequired = True, fvalue = js '' '',
             fdefault = [], ferror = False, ferrorText = Some []\<rparr> \<and>
   trim (fvalue \<lparr>fname = js ''phone'', ftype = js ''tel'', frequired = True, fvalue = js '' '',
             fdefault = [], ferror = False, ferrorText = Some []\<rparr>) = [] \<and>
   ferrorText (snd (validateField \<lparr>fname = js ''phone'', ftype = js ''tel'', frequired = True,
             fvalue = js '' '', fdefault = [], ferror = False, ferrorText = Some []\<rparr>)) =
     Some (js ''Please enter a valid phone number'') \<and>
   js ''Please enter a valid phone number'' \<noteq> js ''This field is required''"
proof -
  let ?F = "\<lparr>fname = js ''phone'', ftype = js ''tel'', frequired = True, fvalue = js '' '',
             fdefault = [], ferror = False, ferrorText = Some []\<rparr>"
  have b: "trim (fvalue ?F) = []"
    by (simp add: trim_def js_def is_white_space_def)
  have d: "length (replace_class_global (\<lambda>c. \<not> is_digit c) (js '' '')) < 10"
    by (simp add: replace_class_global_def js_def is_digit_def)
  have ne: "js '' '' \<noteq> []"
    by (simp add: js_def)
  from d ne have "ferrorText (snd (validateField ?F)) = Some (js ''Please enter a valid phone number'')"
    by (simp add: validateField_message)
  moreover have "js ''Please enter a valid phone number'' \<noteq> js ''This field is required''"
    by (simp add: js_def)
  ultimately show ?thesis
    using b by simp
qed

section \<open>Submit readiness\<close>

lemma validateField_keeps:
  "fname (snd (validateField field)) = fname field"
  "ftype (snd (validateField field)) = ftype field"
  "frequired (snd (validateField field)) = frequired field"
  "fvalue (snd (validateField field)) = fvalue field"
  "fdefault (snd (validateField field)) = fdefault field"
  by (simp_all add: validateField_def Let_def)

lemma fold_allValid:
  "fold (\<lambda>field allValid. if trim (fvalue field) = [] \<or> ferror field then False else allValid) xs b
     \<longleftrightarrow> b \<and> list_all field_unmarked xs"
  by (induction xs arbitrary: b) (auto simp: field_unmarked_def)

lemma checkFormValidity_fst: "fst (checkFormValidity this) \<longleftrightarrow> submit_ready this"
  by (simp add: checkFormValidity_def Let_def fold_allValid submit_ready_def)

lemma checkFormValidity_snd:
  "snd (checkFormValidity this) = this\<lparr>submitBtn_disabled := \<not> submit_ready this\<rparr>"
  by (simp add: checkFormValidity_def Let_def fold_allValid submit_ready_def)

lemma submit_ready_submitBtn [simp]:
  "submit_ready (this\<lparr>submitBtn_disabled := b\<rparr>) = submit_ready this"
  by (simp add: submit_ready_def)

lemma on_blur_submitBtn: "submitBtn_disabled (on_blur i this) = submitBtn_disabled this"
  by (simp add: on_blur_def)

lemma on_input_submitBtn:
  assumes "i < length (form this)" and "frequired (form this ! i)"
  shows "submitBtn_disabled (on_input i v this) \<longleftrightarrow> \<not> submit_ready (on_input i v this)"
  using assms by (simp add: on_input_def Let_def checkFormValidity_snd)

lemma onImageCaptured_app:
  assumes "smartFormApp w = Some this"
  shows "smartFormApp (onImageCaptured x w) =
           Some (this\<lparr>capturedImageData := x,
                      submitBtn_disabled := \<not> submit_ready (this\<lparr>capturedImageData := x\<rparr>)\<rparr>)"
  using assms by (simp add: onImageCaptured_def emit_def checkFormValidity_snd)

lemma onImageCaptured_effects:
  assumes "smartFormApp w = Some this"
  shows "effects (onImageCaptured x w) = effects w @ [ImageCaptured x]"
  using assms by (simp add: onImageCaptured_def emit_def)

lemma onImageCaptured_cameraApp: "cameraApp (onImageCaptured x w) = cameraApp w"
  by (simp add: onImageCaptured_def emit_def split: option.splits)

text \<open>
  Claim C1, as amended. Every run of \<open>checkFormValidity\<close> returns, and sets the submit
  button enabled, if and only if every required field has a value that is not blank and
  carries no error mark, and a non-empty image is stored. With no image, or with a blank
  or marked required field, it leaves the button disabled. The button has this value
  after every \<open>input\<close> event on a required field and after every call of
  \<open>onImageCaptured\<close>.
\<close>

theorem submit_enabled_iff_ready:
  "(fst (checkFormValidity this) \<longleftrightarrow> submit_ready this) \<and>
   (\<not> submitBtn_disabled (snd (checkFormValidity this)) \<longleftrightarrow>
      list_all field_unmarked (filter frequired (form this)) \<and> image_present this) \<and>
   (\<not> image_present this \<longrightarrow> submitBtn_disabled (snd (checkFormValidity this))) \<and>
   (\<not> list_all field_unmarked (filter frequired (form this)) \<longrightarrow>
      submitBtn_disabled (snd (checkFormValidity this))) \<and>
   (i < length (form this) \<and> frequired (form this ! i) \<longrightarrow>
      (\<not> submitBtn_disabled (on_input i v this) \<longleftrightarrow> submit_ready (on_input i v this))) \<and>
   (smartFormApp w = Some this \<longrightarrow>
      (\<exists>this'. smartFormApp (onImageCaptured x w) = Some this' \<and>
         (\<not> submitBtn_disabled this' \<longleftrightarrow> submit_ready this')))"
proof -
  have ready: "fst (checkFormValidity this) \<longleftrightarrow> submit_ready this"
    by (rule checkFormValidity_fst)
  have enabled: "\<not> submitBtn_disabled (snd (checkFormValidity this)) \<longleftrightarrow>
      list_all field_unmarked (filter frequired (form this)) \<and> image_present this"
    by (simp add: checkFormValidity_snd submit_ready_def image_present_def)
  from enabled have no_image:
    "\<not> image_present this \<longrightarrow> submitBtn_disabled (snd (checkFormValidity this))"
    by blast
  from enabled have no_fields:
    "\<not> list_all field_unmarked (filter frequired (form this)) \<longrightarrow>
      submitBtn_disabled (snd (checkFormValidity this))"
    by blast
  have input: "i < length (form this) \<and> frequired (form this ! i) \<longrightarrow>
      (\<not> submitBtn_disabled (on_input i v this) \<longleftrightarrow> submit_ready (on_input i v this))"
    by (simp add: on_input_submitBtn)
  have image: "smartFormApp w = Some this \<longrightarrow>
      (\<exists>this'. smartFormApp (onImageCaptured x w) = Some this' \<and>
         (\<not> submitBtn_disabled this' \<longleftrightarrow> submit_ready this'))"
    by (simp add: onImageCaptured_app submit_ready_def)
  from ready enabled no_image no_fields input image show ?thesis
    by (intro conjI)
qed


theorem submit_enabled_iff_ready_witness:
  "0 < length (form \<lparr>form = [\<lparr>fname = js ''phone'', ftype = js ''tel'', frequired = True,
                                fvalue = [], fdefault = [], ferror = False, ferrorText = Some []\<rparr>],
                       capturedImageData = Str (js ''data:image/jpeg;base64,AAAA''),
                       submitBtn_disabled = True, loadingOverlay_hidden = True,
                       successModal_hidden = True, submissionDetails = None\<rparr>) \<and>
   \<not> submitBtn_disabled
       (on_input 0 (js ''5551234567'')
          \<lparr>form = [\<lparr>fname = js ''phone'', ftype = js ''tel'', frequired = True,
                     fvalue = [], fdefault = [], ferror = False, ferrorText = Some []\<rparr>],
            capturedImageData = Str (js ''data:image/jpeg;base64,AAAA''),
            submitBtn_disabled = True, loadingOverlay_hidden = True,
            successModal_hidden = True, submissionDetails = None\<rparr>) \<and>
   submit_ready
       (on_input 0 (js ''5551234567'')
          \<lparr>form = [\<lparr>fname = js ''phone'', ftype = js ''tel'', frequired = True,
                     fvalue = [], fdefault = [], ferror = False, ferrorText = Some []\<rparr>],
            capturedImageData = Str (js ''data:image/jpeg;base64,AAAA''),
            submitBtn_disabled = True, loadingOverlay_hidden = True,
            successModal_hidden = True, submissionDetails = None\<rparr>)"
proof -
  let ?A = "\<lparr>form = [\<lparr>fname = js ''phone'', ftype = js ''tel'', frequired = True,
                     fvalue = [], fdefault = [], ferror = False, ferrorText = Some []\<rparr>],
            capturedImageData = Str (js ''data:image/jpeg;base64,AAAA''),
            submitBtn_disabled = True, loadingOverlay_hidden = True,
            successModal_hidden = True, submissionDetails = None\<rparr>"
  let ?v = "js ''5551234567''"
  have i: "0 < length (form ?A) \<and> frequired (form ?A ! 0)"
    by simp
  have r: "submit_ready (on_input 0 ?v ?A)"
    by (simp add: on_input_def Let_def checkFormValidity_snd submit_ready_def field_unmarked_def
        trim_def js_def is_white_space_def)
  note main = submit_enabled_iff_ready [of ?A 0 ?v]
  from main [THEN conjunct2, THEN conjunct2, THEN conjunct2, THEN conjunct2, THEN conjunct1] i r
  have "\<not> submitBtn_disabled (on_input 0 ?v ?A)"
    by blast
  with i r show ?thesis by blast
qed

text \<open>
  The claim as stated asks for validity under the validation rules, recomputed after
  every validation pass. With an image stored, typing \<open>123\<close> into a required \<open>tel\<close>
  field enables the button although the field is invalid; the following \<open>blur\<close> marks
  the field and the button stays enabled.
\<close>

theorem submit_enabled_counterexample:
  "\<not> submitBtn_disabled
       (on_input 0 (js ''123'')
          \<lparr>form = [\<lparr>fname = js ''phone'', ftype = js ''tel'', frequired = True,
                     fvalue = [], fdefault = [], ferror = False, ferrorText = Some []\<rparr>],
            capturedImageData = Str (js ''data:image/jpeg;base64,AAAA''),
            submitBtn_disabled = True, loadingOverlay_hidden = True,
            successModal_hidden = True, submissionDetails = None\<rparr>) \<and>
   \<not> all_required_valid
       (on_input 0 (js ''123'')
          \<lparr>form = [\<lparr>fname = js ''phone'', ftype = js ''tel'', frequired = True,
                     fvalue = [], fdefault = [], ferror = False, ferrorText = Some []\<rparr>],
            capturedImageData = Str (js ''data:image/jpeg;base64,AAAA''),
            submitBtn_disabled = True, loadingOverlay_hidden = True,
            successModal_hidden = True, submissionDetails = None\<rparr>) \<and>
   \<not> submitBtn_disabled
       (on_blur 0 (on_input 0 (js ''123'')
          \<lparr>form = [\<lparr>fname = js ''phone'', ftype = js ''tel'', frequired = True,
                     fvalue = [], fdefault = [], ferror = False, ferrorText = Some []\<rparr>],
            capturedImageData = Str (js ''data:image/jpeg;base64,AAAA''),
            submitBtn_disabled = True, loadingOverlay_hidden = True,
            successModal_hidden = True, submissionDetails = None\<rparr>)) \<and>
   \<not> all_required_valid
       (on_blur 0 (on_input 0 (js ''123'')
          \<lparr>form = [\<lparr>fname = js ''phone'', ftype = js ''tel'', frequired = True,
                     fvalue = [], fdefault = [], ferror = False, ferrorText = Some []\<rparr>],
            capturedImageData = Str (js ''data:image/jpeg;base64,AAAA''),
            submitBtn_disabled = True, loadingOverlay_hidden = True,
            successModal_hidden = True, submissionDetails = None\<rparr>)) \<and>
   list_all ferror
     (form (on_blur 0 (on_input 0 (js ''123'')
          \<lparr>form = [\<lparr>fname = js ''phone'', ftype = js ''tel'', frequired = True,
                     fvalue = [], fdefault = [], ferror = False, ferrorText = Some []\<rparr>],
            capturedImageData = Str (js ''data:image/jpeg;base64,AAAA''),
            submitBtn_disabled = True, loadingOverlay_hidden = True,
            successModal_hidden = True, submissionDetails = None\<rparr>)))"
proof -
  let ?f = "\<lparr>fname = js ''phone'', ftype = js ''tel'', frequired = True,
             fvalue = js ''123'', fdefault = [], ferror = False, ferrorText = Some []\<rparr>"
  let ?A = "\<lparr>form = [\<lparr>fname = js ''phone'', ftype = js ''tel'', frequired = True,
                     fvalue = [], fdefault = [], ferror = False, ferrorText = Some []\<rparr>],
            capturedImageData = Str (js ''data:image/jpeg;base64,AAAA''),
            submitBtn_disabled = True, loadingOverlay_hidden = True,
            successModal_hidden = True, submissionDetails = None\<rparr>"
  have ne: "js ''123'' \<noteq> []" and img: "js ''data:image/jpeg;base64,AAAA'' \<noteq> []"
    by (simp_all add: js_def)
  have nb: "trim (js ''123'') \<noteq> []"
    by (simp add: trim_def js_def is_white_space_def)
  have bad: "\<not> fst (validateField ?f)"
    by (simp add: validateField_tel ne phone_shape_def js_def is_digit_def)
  have typed: "on_input 0 (js ''123'') ?A = ?A\<lparr>form := [?f], submitBtn_disabled := False\<rparr>"
    by (simp add: on_input_def Let_def checkFormValidity_snd submit_ready_def field_unmarked_def
        nb img)
  have still_bad: "\<not> fst (validateField (snd (validateField ?f)))"
    by (simp add: validateField_tel validateField_keeps ne phone_shape_def js_def is_digit_def)
  from bad still_bad show ?thesis
    unfolding typed
    by (simp add: all_required_valid_def field_valid_def on_blur_def validateField_keeps
        validateField_ferror)
qed

section \<open>The submission record\<close>

lemma obj_get_obj_set:
  "obj_get (obj_set k v obj) k' = (if k' = k then v else obj_get obj k')"
  by (simp add: obj_get_def obj_set_def update_conv')



lemma timestamp_ne_imageData: "js ''timestamp'' \<noteq> js ''imageData''"
  by (simp add: js_def)

lemma getFormData_timestamp: "obj_get (getFormData e this) (js ''timestamp'') = Str (iso_now e)"
  by (simp add: getFormData_def Let_def obj_get_obj_set timestamp_ne_imageData)





lemma getFormData_submitBtn [simp]:
  "getFormData e (this\<lparr>submitBtn_disabled := b\<rparr>) = getFormData e this"
  by (simp add: getFormData_def)

section \<open>The submission flow\<close>

lemma message_or_nonempty: "fallback \<noteq> [] \<Longrightarrow> message_or m fallback \<noteq> []"
  by (simp add: message_or_def split: option.splits)

lemma message_or_Some: "s \<noteq> [] \<Longrightarrow> message_or (Some s) fallback = s"
  by (simp add: message_or_def)

lemma submission_failed_nonempty: "js ''Submission failed'' \<noteq> []"
  by (simp add: js_def)

lemma handleFormSubmit_invalid:
  assumes "smartFormApp w = Some this" and "\<not> submit_ready this"
  shows "handleFormSubmit e w =
           w\<lparr>smartFormApp := Some (this\<lparr>submitBtn_disabled := True\<rparr>),
              effects := effects w @
                [ShowError (js ''Please complete all required fields and capture a photo'')]\<rparr>"
proof -
  from assms(2) have "checkFormValidity this = (False, this\<lparr>submitBtn_disabled := True\<rparr>)"
    using checkFormValidity_fst [of this] checkFormValidity_snd [of this]
    by (simp add: prod_eq_iff)
  with assms(1) show ?thesis
    by (simp add: handleFormSubmit_def showError_def emit_def)
qed

lemma handleFormSubmit_simulated:
  assumes "smartFormApp w = Some this" and "submit_ready this"
    and "submitData_try e (getFormData e this) = Inl err"
  shows "handleFormSubmit e w =
           w\<lparr>smartFormApp := Some (this\<lparr>submitBtn_disabled := False, loadingOverlay_hidden := True,
                 submissionDetails := Some \<lparr>submissionId = js ''SUB_'' @ decimal (epoch_now e),
                   timestamp = Str (iso_now e), message = js ''Data submitted successfully''\<rparr>,
                 successModal_hidden := False\<rparr>),
              effects := effects w @
                [ShowLoading True, Fetch (submit_request (getFormData e this)), ShowLoading False]\<rparr>"
proof -
  from assms(2) have "checkFormValidity this = (True, this\<lparr>submitBtn_disabled := False\<rparr>)"
    using checkFormValidity_fst [of this] checkFormValidity_snd [of this]
    by (simp add: prod_eq_iff)
  with assms(1,3) show ?thesis
    by (simp add: handleFormSubmit_def showLoading_def emit_def submitData_def Let_def
        simulated_response_def showSuccess_def getFormData_timestamp)
qed

lemma handleFormSubmit_success:
  assumes "smartFormApp w = Some this" and "submit_ready this"
    and "submitData_try e (getFormData e this) = Inr (Success d)"
  shows "handleFormSubmit e w =
           w\<lparr>smartFormApp := Some (this\<lparr>submitBtn_disabled := False, loadingOverlay_hidden := True,
                 submissionDetails := Some d, successModal_hidden := False\<rparr>),
              effects := effects w @
                [ShowLoading True, Fetch (submit_request (getFormData e this)), ShowLoading False]\<rparr>"
proof -
  from assms(2) have "checkFormValidity this = (True, this\<lparr>submitBtn_disabled := False\<rparr>)"
    using checkFormValidity_fst [of this] checkFormValidity_snd [of this]
    by (simp add: prod_eq_iff)
  with assms(1,3) show ?thesis
    by (simp add: handleFormSubmit_def showLoading_def emit_def submitData_def Let_def
        showSuccess_def)
qed

lemma handleFormSubmit_failure:
  assumes "smartFormApp w = Some this" and "submit_ready this"
    and "submitData_try e (getFormData e this) = Inr (Failure m)"
  shows "handleFormSubmit e w =
           w\<lparr>smartFormApp := Some (this\<lparr>submitBtn_disabled := False, loadingOverlay_hidden := True\<rparr>),
              effects := effects w @
                [ShowLoading True, Fetch (submit_request (getFormData e this)),
                 ShowError (message_or m (js ''Submission failed'')), ShowLoading False]\<rparr>"
proof -
  from assms(2) have "checkFormValidity this = (True, this\<lparr>submitBtn_disabled := False\<rparr>)"
    using checkFormValidity_fst [of this] checkFormValidity_snd [of this]
    by (simp add: prod_eq_iff)
  moreover have "message_or (Some (message_or m (js ''Submission failed'')))
      (js ''An error occurred during submission'') = message_or m (js ''Submission failed'')"
    by (simp add: message_or_Some message_or_nonempty submission_failed_nonempty)
  ultimately show ?thesis
    using assms(1,3)
    by (simp add: handleFormSubmit_def showLoading_def emit_def submitData_def Let_def
        showError_def Error_def)
qed

lemma new_effects_update [simp]:
  "new_effects w (w'\<lparr>effects := effects w @ es\<rparr>) = es"
  by (simp add: new_effects_def)

lemma sample_app_ready: "submit_ready sample_app"
  by (simp add: submit_ready_def sample_app_def field_unmarked_def trim_def js_def
      is_white_space_def sample_image_def)

lemma refusing_env_try:
  "submitData_try refusing_env data = Inr (Failure (Some (js ''Sheet is full'')))"
  by (simp add: submitData_try_def refusing_env_def ok_def)

lemma offline_env_try:
  "submitData_try offline_env data =
     Inl \<lparr>err_name = js ''TypeError'', err_message = js ''Failed to fetch''\<rparr>"
  by (simp add: submitData_try_def offline_env_def)

lemma sample_window_app: "smartFormApp sample_window = Some sample_app"
  by (simp add: sample_window_def)

lemma sample_window_effects: "effects sample_window = []"
  by (simp add: sample_window_def)

section \<open>Submitting an incomplete form\<close>

text \<open>
  Claim C7, as amended. When the form is submitted and \<open>checkFormValidity\<close> returns
  false, that is, a required field is blank or carries the error mark of an earlier
  validation, or no image is stored, \<open>handleFormSubmit\<close> reports the blocking error and
  stops: the error notification is its only effect, no request is sent and the loading
  indicator is not shown.
\<close>

theorem invalid_submit_aborts:
  assumes "smartFormApp w = Some this"
    and "\<not> list_all field_unmarked (filter frequired (form this)) \<or> \<not> image_present this"
  shows "effects (handleFormSubmit e w) =
           effects w @
             [ShowError (js ''Please complete all required fields and capture a photo'')] \<and>
         requests_of (new_effects w (handleFormSubmit e w)) = [] \<and>
         ShowLoading True \<notin> set (new_effects w (handleFormSubmit e w)) \<and>
         smartFormApp (handleFormSubmit e w) = Some (this\<lparr>submitBtn_disabled := True\<rparr>) \<and>
         cameraApp (handleFormSubmit e w) = cameraApp w"
proof -
  from assms(2) have "\<not> submit_ready this"
    by (auto simp: submit_ready_def image_present_def)
  with assms(1) have "handleFormSubmit e w =
      w\<lparr>smartFormApp := Some (this\<lparr>submitBtn_disabled := True\<rparr>),
         effects := effects w @
           [ShowError (js ''Please complete all required fields and capture a photo'')]\<rparr>"
    by (rule handleFormSubmit_invalid)
  then show ?thesis by simp
qed

theorem invalid_submit_aborts_witness:
  "smartFormApp (sample_window\<lparr>smartFormApp := Some (sample_app\<lparr>capturedImageData := Null\<rparr>)\<rparr>) =
     Some (sample_app\<lparr>capturedImageData := Null\<rparr>) \<and>
   \<not> image_present (sample_app\<lparr>capturedImageData := Null\<rparr>) \<and>
   effects (handleFormSubmit offline_env
       (sample_window\<lparr>smartFormApp := Some (sample_app\<lparr>capturedImageData := Null\<rparr>)\<rparr>)) =
     [ShowError (js ''Please complete all required fields and capture a photo'')] \<and>
   \<not> list_all field_unmarked (filter frequired (form (sample_app\<lparr>form :=
       [\<lparr>fname = js ''phone'', ftype = js ''tel'', frequired = True, fvalue = js ''123'',
         fdefault = [], ferror = True,
         ferrorText = Some (js ''Please enter a valid phone number'')\<rparr>]\<rparr>))) \<and>
   effects (handleFormSubmit offline_env
       (sample_window\<lparr>smartFormApp := Some (sample_app\<lparr>form :=
         [\<lparr>fname = js ''phone'', ftype = js ''tel'', frequired = True, fvalue = js ''123'',
           fdefault = [], ferror = True,
           ferrorText = Some (js ''Please enter a valid phone number'')\<rparr>]\<rparr>)\<rparr>)) =
     [ShowError (js ''Please complete all required fields and capture a photo'')]"
proof -
  let ?A = "sample_app\<lparr>capturedImageData := Null\<rparr>"
  let ?W = "sample_window\<lparr>smartFormApp := Some ?A\<rparr>"
  let ?B = "sample_app\<lparr>form :=
       [\<lparr>fname = js ''phone'', ftype = js ''tel'', frequired = True, fvalue = js ''123'',
         fdefault = [], ferror = True,
         ferrorText = Some (js ''Please enter a valid phone number'')\<rparr>]\<rparr>"
  let ?V = "sample_window\<lparr>smartFormApp := Some ?B\<rparr>"
  have a: "smartFormApp ?W = Some ?A" by simp
  have b: "\<not> image_present ?A" by (simp add: image_present_def)
  then have c: "\<not> list_all field_unmarked (filter frequired (form ?A)) \<or> \<not> image_present ?A"
    by (rule disjI2)
  have "effects ?W = []" by (simp add: sample_window_def)
  with invalid_submit_aborts [OF a c, of offline_env, THEN conjunct1]
  have no_image: "effects (handleFormSubmit offline_env ?W) =
      [ShowError (js ''Please complete all required fields and capture a photo'')]"
    by simp
  have a': "smartFormApp ?V = Some ?B" by simp
  have b': "\<not> list_all field_unmarked (filter frequired (form ?B))"
    by (simp add: field_unmarked_def)
  then have c': "\<not> list_all field_unmarked (filter frequired (form ?B)) \<or> \<not> image_present ?B"
    by (rule disjI1)
  have "effects ?V = []" by (simp add: sample_window_def)
  with invalid_submit_aborts [OF a' c', of offline_env, THEN conjunct1]
  have "effects (handleFormSubmit offline_env ?V) =
      [ShowError (js ''Please complete all required fields and capture a photo'')]"
    by simp
  with a b no_image b' show ?thesis by simp
qed

text \<open>
  The claim as stated aborts whenever a required field is invalid. A required \<open>tel\<close>
  field that holds \<open>123\<close> and has not been marked yet is invalid under the validation
  rules; with an image stored, \<open>checkFormValidity\<close> accepts the form and the submission
  shows the loading indicator and sends the request.
\<close>

theorem invalid_submit_counterexample:
  "\<not> all_required_valid (sample_app\<lparr>form :=
       [\<lparr>fname = js ''phone'', ftype = js ''tel'', frequired = True, fvalue = js ''123'',
         fdefault = [], ferror = False, ferrorText = Some []\<rparr>]\<rparr>) \<and>
   effects (handleFormSubmit offline_env
       (sample_window\<lparr>smartFormApp := Some (sample_app\<lparr>form :=
         [\<lparr>fname = js ''phone'', ftype = js ''tel'', frequired = True, fvalue = js ''123'',
           fdefault = [], ferror = False, ferrorText = Some []\<rparr>]\<rparr>)\<rparr>)) =
     [ShowLoading True,
      Fetch (submit_request (getFormData offline_env (sample_app\<lparr>form :=
         [\<lparr>fname = js ''phone'', ftype = js ''tel'', frequired = True, fvalue = js ''123'',
           fdefault = [], ferror = False, ferrorText = Some []\<rparr>]\<rparr>))),
      ShowLoading False]"
proof -
  let ?f = "\<lparr>fname = js ''phone'', ftype = js ''tel'', frequired = True, fvalue = js ''123'',
             fdefault = [], ferror = False, ferrorText = Some []\<rparr>"
  let ?B = "sample_app\<lparr>form := [?f]\<rparr>"
  let ?V = "sample_window\<lparr>smartFormApp := Some ?B\<rparr>"
  have ne: "js ''123'' \<noteq> []"
    by (simp add: js_def)
  have "\<not> fst (validateField ?f)"
    by (simp add: validateField_tel ne phone_shape_def js_def is_digit_def)
  then have invalid: "\<not> all_required_valid ?B"
    by (simp add: all_required_valid_def field_valid_def)
  have app: "smartFormApp ?V = Some ?B" by simp
  have ready: "submit_ready ?B"
    by (simp add: submit_ready_def field_unmarked_def trim_def js_def is_white_space_def
        sample_app_def sample_image_def)
  have "effects ?V = []"
    by (simp add: sample_window_def)
  then have "effects (handleFormSubmit offline_env ?V) =
     [ShowLoading True, Fetch (submit_request (getFormData offline_env ?B)), ShowLoading False]"
    by (simp add: handleFormSubmit_simulated [OF app ready offline_env_try])
  with invalid show ?thesis by simp
qed

section \<open>Submitting a complete form\<close>





section \<open>Failures of the request\<close>

lemma submitData_try_rejected:
  "fetch e (submit_request data) = Inl err \<Longrightarrow> submitData_try e data = Inl err"
  by (simp add: submitData_try_def)

lemma submitData_try_not_ok:
  "fetch e (submit_request data) = Inr r \<Longrightarrow> \<not> ok r \<Longrightarrow>
     submitData_try e data = Inl (Error (js ''HTTP error! status: '' @ decimal (status r)))"
  by (simp add: submitData_try_def)

lemma submitData_try_ok:
  "fetch e (submit_request data) = Inr r \<Longrightarrow> ok r \<Longrightarrow> submitData_try e data = json r"
  by (simp add: submitData_try_def)

lemma submitData_try_Inr_iff:
  "submitData_try e data = Inr x \<longleftrightarrow>
     (\<exists>r. fetch e (submit_request data) = Inr r \<and> ok r \<and> json r = Inr x)"
proof (cases "fetch e (submit_request data)")
  case (Inl err)
  then show ?thesis by (simp add: submitData_try_def)
next
  case (Inr r)
  then show ?thesis by (simp add: submitData_try_def)
qed

lemma submitData_try_failure_modes:
  assumes "(\<exists>err. fetch e (submit_request data) = Inl err) \<or>
           (\<exists>r. fetch e (submit_request data) = Inr r \<and> \<not> ok r) \<or>
           (\<exists>r err. fetch e (submit_request data) = Inr r \<and> ok r \<and> json r = Inl err)"
  shows "\<exists>err. submitData_try e data = Inl err"
  using assms
proof (elim disjE exE conjE)
  fix err
  assume "fetch e (submit_request data) = Inl err"
  then have "submitData_try e data = Inl err"
    by (rule submitData_try_rejected)
  then show ?thesis ..
next
  fix r
  assume "fetch e (submit_request data) = Inr r" and "\<not> ok r"
  then have "submitData_try e data =
      Inl (Error (js ''HTTP error! status: '' @ decimal (status r)))"
    by (rule submitData_try_not_ok)
  then show ?thesis ..
next
  fix r err
  assume resp: "fetch e (submit_request data) = Inr r" and "ok r" and parse: "json r = Inl err"
  from resp \<open>ok r\<close> have "submitData_try e data = json r"
    by (rule submitData_try_ok)
  with parse have "submitData_try e data = Inl err"
    by simp
  then show ?thesis ..
qed

lemma submitData_fst:
  "fst (submitData e data w) =
     (case submitData_try e data of
        Inl err \<Rightarrow> Inr (simulated_response e data)
      | Inr response \<Rightarrow> Inr response)"
  by (simp add: submitData_def Let_def split: sum.splits)

lemma handleFormSubmit_error_shown:
  assumes "smartFormApp w = Some this" and "submit_ready this"
    and "ShowError msg \<in> set (new_effects w (handleFormSubmit e w))"
  shows "\<exists>m. submitData_try e (getFormData e this) = Inr (Failure m)"
proof (cases "submitData_try e (getFormData e this)")
  case (Inl err)
  with assms show ?thesis by (simp add: handleFormSubmit_simulated)
next
  case (Inr response)
  with assms show ?thesis
    by (cases response) (simp_all add: handleFormSubmit_success)
qed

text \<open>
  Claim C10. \<open>submitData\<close> never rejects: for every outcome of the request its promise
  is fulfilled with a response. When \<open>fetch\<close> rejects, when the status is not 2xx and
  when the body does not parse, the response is the locally built success object, with
  the id \<open>SUB_\<close> followed by the current epoch time and the timestamp of the data it
  was given. So a submission that passes the validity gate shows an error notification
  only if the endpoint answered 2xx with a parsed body whose \<open>success\<close> is false.
\<close>

theorem submitData_never_rejects:
  "(\<exists>response. fst (submitData e data w) = Inr response) \<and>
   ((\<exists>err. fetch e (submit_request data) = Inl err) \<or>
    (\<exists>r. fetch e (submit_request data) = Inr r \<and> \<not> ok r) \<or>
    (\<exists>r err. fetch e (submit_request data) = Inr r \<and> ok r \<and> json r = Inl err) \<longrightarrow>
      fst (submitData e data w) =
        Inr (Success \<lparr>submissionId = js ''SUB_'' @ decimal (epoch_now e),
                      timestamp = obj_get data (js ''timestamp''),
                      message = js ''Data submitted successfully''\<rparr>)) \<and>
   (smartFormApp w = Some this \<and> submit_ready this \<and>
    (\<exists>msg. ShowError msg \<in> set (new_effects w (handleFormSubmit e w))) \<longrightarrow>
      (\<exists>r m. fetch e (submit_request (getFormData e this)) = Inr r \<and> ok r \<and>
         json r = Inr (Failure m)))"
proof (intro conjI impI)
  show "\<exists>response. fst (submitData e data w) = Inr response"
    by (simp add: submitData_fst split: sum.splits)
next
  assume "(\<exists>err. fetch e (submit_request data) = Inl err) \<or>
    (\<exists>r. fetch e (submit_request data) = Inr r \<and> \<not> ok r) \<or>
    (\<exists>r err. fetch e (submit_request data) = Inr r \<and> ok r \<and> json r = Inl err)"
  then obtain err where "submitData_try e data = Inl err"
    using submitData_try_failure_modes by blast
  then show "fst (submitData e data w) =
        Inr (Success \<lparr>submissionId = js ''SUB_'' @ decimal (epoch_now e),
                      timestamp = obj_get data (js ''timestamp''),
                      message = js ''Data submitted successfully''\<rparr>)"
    by (simp add: submitData_fst simulated_response_def)
next
  assume "smartFormApp w = Some this \<and> submit_ready this \<and>
    (\<exists>msg. ShowError msg \<in> set (new_effects w (handleFormSubmit e w)))"
  then obtain m where "submitData_try e (getFormData e this) = Inr (Failure m)"
    using handleFormSubmit_error_shown by blast
  then show "\<exists>r m. fetch e (submit_request (getFormData e this)) = Inr r \<and> ok r \<and>
         json r = Inr (Failure m)"
    by (auto simp: submitData_try_Inr_iff)
qed

lemma sheet_is_full: "message_or (Some (js ''Sheet is full'')) fallback = js ''Sheet is full''"
  by (simp add: message_or_def js_def)

theorem submitData_never_rejects_witness:
  "smartFormApp sample_window = Some sample_app \<and> submit_ready sample_app \<and>
   ShowError (js ''Sheet is full'') \<in>
     set (new_effects sample_window (handleFormSubmit refusing_env sample_window)) \<and>
   (\<exists>r m. fetch refusing_env (submit_request (getFormData refusing_env sample_app)) = Inr r \<and>
      ok r \<and> json r = Inr (Failure m)) \<and>
   fst (submitData offline_env (getFormData offline_env sample_app) sample_window) =
     Inr (Success \<lparr>submissionId = js ''SUB_'' @ decimal (epoch_now offline_env),
                   timestamp = Str (iso_now offline_env),
                   message = js ''Data submitted successfully''\<rparr>)"
proof -
  have shown: "ShowError (js ''Sheet is full'') \<in>
     set (new_effects sample_window (handleFormSubmit refusing_env sample_window))"
    by (simp add: handleFormSubmit_failure [OF sample_window_app sample_app_ready refusing_env_try]
        sheet_is_full)
  then have "smartFormApp sample_window = Some sample_app \<and> submit_ready sample_app \<and>
    (\<exists>msg. ShowError msg \<in>
       set (new_effects sample_window (handleFormSubmit refusing_env sample_window)))"
    using sample_window_app sample_app_ready by blast
  with submitData_never_rejects [of refusing_env _ sample_window sample_app,
      THEN conjunct2, THEN conjunct2]
  have answered: "\<exists>r m. fetch refusing_env (submit_request (getFormData refusing_env sample_app)) =
      Inr r \<and> ok r \<and> json r = Inr (Failure m)"
    by blast
  have "\<exists>err. fetch offline_env (submit_request (getFormData offline_env sample_app)) = Inl err"
    by (simp add: offline_env_def)
  with submitData_never_rejects [of offline_env "getFormData offline_env sample_app" sample_window,
      THEN conjunct2, THEN conjunct1]
  have "fst (submitData offline_env (getFormData offline_env sample_app) sample_window) =
     Inr (Success \<lparr>submissionId = js ''SUB_'' @ decimal (epoch_now offline_env),
                   timestamp = obj_get (getFormData offline_env sample_app) (js ''timestamp''),
                   message = js ''Data submitted successfully''\<rparr>)"
    by blast
  with shown answered sample_window_app sample_app_ready show ?thesis
    by (simp add: getFormData_timestamp)
qed


text \<open>
  Claim C2, as amended. A submission that passes the validity gate and whose request
  fails ends in one of two ways. When the endpoint answers 2xx with a parsed body whose
  \<open>success\<close> is false, the flow shows an error notification, with the message of the
  server or \<open>Submission failed\<close> when there is none or it is empty, and shows no
  success record. When \<open>fetch\<close> rejects, the status is not 2xx or the body does not
  parse, the flow shows the locally generated success record, whose id is \<open>SUB_\<close>
  followed by the current epoch time and whose timestamp is that of the submitted record,
  and shows no error notification. In both cases the loading indicator is hidden again.
\<close>

theorem failed_submission_outcomes:
  assumes "smartFormApp w = Some this" and "submit_ready this"
  shows "((\<exists>r. fetch e (submit_request (getFormData e this)) = Inr r \<and> ok r \<and>
             json r = Inr (Failure m)) \<longrightarrow>
            effects (handleFormSubmit e w) =
              effects w @
              [ShowLoading True, Fetch (submit_request (getFormData e this)),
               ShowError (message_or m (js ''Submission failed'')), ShowLoading False] \<and>
            smartFormApp (handleFormSubmit e w) =
              Some (this\<lparr>submitBtn_disabled := False, loadingOverlay_hidden := True\<rparr>)) \<and>
         ((\<exists>err. fetch e (submit_request (getFormData e this)) = Inl err) \<or>
          (\<exists>r. fetch e (submit_request (getFormData e this)) = Inr r \<and> \<not> ok r) \<or>
          (\<exists>r err. fetch e (submit_request (getFormData e this)) = Inr r \<and> ok r \<and>
             json r = Inl err) \<longrightarrow>
            effects (handleFormSubmit e w) =
              effects w @
              [ShowLoading True, Fetch (submit_request (getFormData e this)), ShowLoading False] \<and>
            smartFormApp (handleFormSubmit e w) =
              Some (this\<lparr>submitBtn_disabled := False, loadingOverlay_hidden := True,
                 submissionDetails := Some \<lparr>submissionId = js ''SUB_'' @ decimal (epoch_now e),
                   timestamp = Str (iso_now e), message = js ''Data submitted successfully''\<rparr>,
                 successModal_hidden := False\<rparr>))"
proof (intro conjI impI)
  assume "\<exists>r. fetch e (submit_request (getFormData e this)) = Inr r \<and> ok r \<and>
             json r = Inr (Failure m)"
  then have refused: "submitData_try e (getFormData e this) = Inr (Failure m)"
    by (simp add: submitData_try_Inr_iff)
  note flow = handleFormSubmit_failure [OF assms refused]
  show "effects (handleFormSubmit e w) =
      effects w @
      [ShowLoading True, Fetch (submit_request (getFormData e this)),
       ShowError (message_or m (js ''Submission failed'')), ShowLoading False]"
    by (simp add: flow)
  show "smartFormApp (handleFormSubmit e w) =
      Some (this\<lparr>submitBtn_disabled := False, loadingOverlay_hidden := True\<rparr>)"
    by (simp add: flow)
next
  assume "(\<exists>err. fetch e (submit_request (getFormData e this)) = Inl err) \<or>
          (\<exists>r. fetch e (submit_request (getFormData e this)) = Inr r \<and> \<not> ok r) \<or>
          (\<exists>r err. fetch e (submit_request (getFormData e this)) = Inr r \<and> ok r \<and>
             json r = Inl err)"
  then obtain err where failed: "submitData_try e (getFormData e this) = Inl err"
    using submitData_try_failure_modes by blast
  note flow = handleFormSubmit_simulated [OF assms failed]
  show "effects (handleFormSubmit e w) =
      effects w @
      [ShowLoading True, Fetch (submit_request (getFormData e this)), ShowLoading False]"
    by (simp add: flow)
  show "smartFormApp (handleFormSubmit e w) =
      Some (this\<lparr>submitBtn_disabled := False, loadingOverlay_hidden := True,
         submissionDetails := Some \<lparr>submissionId = js ''SUB_'' @ decimal (epoch_now e),
           timestamp = Str (iso_now e), message = js ''Data submitted successfully''\<rparr>,
         successModal_hidden := False\<rparr>)"
    by (simp add: flow)
qed

theorem failed_submission_outcomes_witness:
  "smartFormApp sample_window = Some sample_app \<and> submit_ready sample_app \<and>
   effects (handleFormSubmit refusing_env sample_window) =
     [ShowLoading True, Fetch (submit_request (getFormData refusing_env sample_app)),
      ShowError (js ''Sheet is full''), ShowLoading False] \<and>
   effects (handleFormSubmit offline_env sample_window) =
     [ShowLoading True, Fetch (submit_request (getFormData offline_env sample_app)),
      ShowLoading False]"
proof -
  note main = failed_submission_outcomes [OF sample_window_app sample_app_ready]
  have "\<exists>r. fetch refusing_env (submit_request (getFormData refusing_env sample_app)) = Inr r \<and>
      ok r \<and> json r = Inr (Failure (Some (js ''Sheet is full'')))"
    by (simp add: refusing_env_def ok_def)
  with main [of refusing_env "Some (js ''Sheet is full'')", THEN conjunct1]
  have refused: "effects (handleFormSubmit refusing_env sample_window) =
     [ShowLoading True, Fetch (submit_request (getFormData refusing_env sample_app)),
      ShowError (js ''Sheet is full''), ShowLoading False]"
    by (simp add: sheet_is_full sample_window_effects)
  have "\<exists>err. fetch offline_env (submit_request (getFormData offline_env sample_app)) = Inl err"
    by (simp add: offline_env_def)
  with main [of offline_env, THEN conjunct2]
  have "effects (handleFormSubmit offline_env sample_window) =
     effects sample_window @
     [ShowLoading True, Fetch (submit_request (getFormData offline_env sample_app)),
      ShowLoading False]"
    by blast
  with refused sample_window_app sample_app_ready show ?thesis
    by (simp add: sample_window_effects)
qed

text \<open>
  The claim as stated joins the two: an error notification and a synthesized success
  record for every failure. With \<open>fetch\<close> rejecting, the effects of the submission
  contain no error notification. With the endpoint answering \<open>success: false\<close>,
  \<open>submitData\<close> returns that answer and no success record is shown.
\<close>

theorem failed_submission_counterexample:
  "effects (handleFormSubmit offline_env sample_window) =
     [ShowLoading True, Fetch (submit_request (getFormData offline_env sample_app)),
      ShowLoading False] \<and>
   map_option submissionDetails (smartFormApp (handleFormSubmit refusing_env sample_window)) =
     Some None \<and>
   fst (submitData refusing_env (getFormData refusing_env sample_app) sample_window) =
     Inr (Failure (Some (js ''Sheet is full'')))"
proof -
  have "effects (handleFormSubmit offline_env sample_window) =
     [ShowLoading True, Fetch (submit_request (getFormData offline_env sample_app)),
      ShowLoading False]"
    by (simp add: handleFormSubmit_simulated [OF sample_window_app sample_app_ready offline_env_try]
        sample_window_effects)
  moreover have "map_option submissionDetails
      (smartFormApp (handleFormSubmit refusing_env sample_window)) = Some None"
    by (simp add: handleFormSubmit_failure [OF sample_window_app sample_app_ready refusing_env_try]
        sample_app_def)
  moreover have "fst (submitData refusing_env (getFormData refusing_env sample_app) sample_window) =
      Inr (Failure (Some (js ''Sheet is full'')))"
    by (simp add: submitData_fst refusing_env_try)
  ultimately show ?thesis by simp
qed

section \<open>The camera\<close>

lemma info_ne_error: "js ''info'' \<noteq> js ''error''"
  by (simp add: js_def)

lemma fold_TrackStop:
  "fold (\<lambda>track. emit (TrackStop track)) s w = w\<lparr>effects := effects w @ map TrackStop s\<rparr>"
  by (induction s arbitrary: w) (simp_all add: emit_def)

lemma retakePhoto_eq:
  assumes "cameraApp w = Some cam" and "smartFormApp w = Some app"
  shows "retakePhoto w =
           w\<lparr>cameraApp := Some (cam\<lparr>capturedImage_hidden := True, video_hidden := False,
                  isCaptured := False, startCameraBtn_hidden := True,
                  capturePhotoBtn_hidden := False, retakePhotoBtn_hidden := True,
                  cameraStatus_text := js ''Position yourself and click Capture Photo'',
                  cameraStatus_color := js ''var(--text-secondary)''\<rparr>),
              smartFormApp := Some (app\<lparr>capturedImageData := Null, submitBtn_disabled := True\<rparr>),
              effects := effects w @ [ImageCaptured Null]\<rparr>"
  using assms
  by (simp add: retakePhoto_def Let_def showCaptureControls_def updateStatus_def info_ne_error
      onImageCaptured_def emit_def checkFormValidity_snd submit_ready_def)

lemma resetCamera_eq:
  assumes "cameraApp w = Some cam"
  shows "resetCamera w =
           w\<lparr>cameraApp := Some (cam\<lparr>stream := None, video_hidden := False,
                  capturedImage_hidden := True, isCaptured := False,
                  startCameraBtn_hidden := False, capturePhotoBtn_hidden := True,
                  retakePhotoBtn_hidden := True,
                  cameraStatus_text :=
                    js ''Click '' @ [34] @ js ''Start Camera'' @ [34] @ js '' to begin'',
                  cameraStatus_color := js ''var(--text-secondary)'',
                  video_srcObject := None\<rparr>),
              effects := effects w @ map TrackStop (case stream cam of None \<Rightarrow> [] | Some s \<Rightarrow> s)\<rparr>"
  using assms
  by (cases "stream cam")
    (simp_all add: resetCamera_def Let_def showStartControls_def updateStatus_def info_ne_error
      fold_TrackStop)

lemma handleFormReset_eq:
  assumes "smartFormApp w = Some app" and "cameraApp w = Some cam"
  shows "\<exists>app'. handleFormReset w = resetCamera (w\<lparr>smartFormApp := Some app'\<rparr>) \<and>
           capturedImageData app' = Null \<and> submitBtn_disabled app'"
proof -
  let ?app' = "app\<lparr>form := map (\<lambda>field. field\<lparr>fvalue := fdefault field\<rparr>) (form app)\<rparr>"
  let ?app'' = "?app'\<lparr>capturedImageData := Null\<rparr>"
  let ?app3 = "?app''\<lparr>form := map (\<lambda>field. field\<lparr>ferror := False\<rparr>) (form ?app'')\<rparr>"
  let ?app4 = "?app3\<lparr>form := map (\<lambda>field. field\<lparr>ferrorText := map_option (\<lambda>_. []) (ferrorText field)\<rparr>)
                                 (form ?app3)\<rparr>"
  let ?app5 = "?app4\<lparr>submitBtn_disabled := True\<rparr>"
  have "handleFormReset w = resetCamera (w\<lparr>smartFormApp := Some ?app5\<rparr>)"
    using assms unfolding handleFormReset_def Let_def by simp
  moreover have "capturedImageData ?app5 = Null" and "submitBtn_disabled ?app5"
    by simp_all
  ultimately show ?thesis by blast
qed

text \<open>
  Claim C9. A retake in the Captured state, on a page whose form controller is installed,
  hides the still and shows the live feed, calls \<open>onImageCaptured(null)\<close> exactly once
  and has no other effect on the outside, so that the image held by the form controller
  is cleared and its submit button is disabled; the camera is Active again and holds the
  same stream, which is neither stopped nor requested again.
\<close>

theorem retake_clears_image_keeps_stream:
  assumes "cameraApp w = Some cam" and "smartFormApp w = Some app"
    and "capture_state cam = Captured"
  shows "\<exists>cam' app'. cameraApp (retakePhoto w) = Some cam' \<and>
           smartFormApp (retakePhoto w) = Some app' \<and>
           capture_state cam' = Active \<and>
           stream cam' = stream cam \<and> video_srcObject cam' = video_srcObject cam \<and>
           capturedImage_hidden cam' \<and> \<not> video_hidden cam' \<and>
           capturedImageData app' = Null \<and> submitBtn_disabled app' \<and> form app' = form app \<and>
           effects (retakePhoto w) = effects w @ [ImageCaptured Null]"
proof -
  from assms(3) have "stream cam \<noteq> None"
    by (auto simp: capture_state_def split: if_splits)
  then show ?thesis
    by (simp add: retakePhoto_eq [OF assms(1,2)] capture_state_def)
qed

theorem retake_clears_image_keeps_stream_witness:
  "cameraApp sample_window = Some sample_camera \<and> smartFormApp sample_window = Some sample_app \<and>
   capture_state sample_camera = Captured \<and>
   effects (retakePhoto sample_window) = [ImageCaptured Null] \<and>
   map_option stream (cameraApp (retakePhoto sample_window)) = Some (Some [0, 1]) \<and>
   map_option capturedImageData (smartFormApp (retakePhoto sample_window)) = Some Null"
proof -
  have a: "cameraApp sample_window = Some sample_camera"
    and b: "smartFormApp sample_window = Some sample_app"
    by (simp_all add: sample_window_def)
  have c: "capture_state sample_camera = Captured"
    by (simp add: capture_state_def sample_camera_def)
  have s: "stream sample_camera = Some [0, 1]"
    by (simp add: sample_camera_def)
  from retake_clears_image_keeps_stream [OF a b c] obtain cam' app' where
    "cameraApp (retakePhoto sample_window) = Some cam'"
    "smartFormApp (retakePhoto sample_window) = Some app'"
    "stream cam' = stream sample_camera" "capturedImageData app' = Null"
    "effects (retakePhoto sample_window) = effects sample_window @ [ImageCaptured Null]"
    by blast
  with a b c s show ?thesis
    by (simp add: sample_window_effects)
qed

text \<open>
  Claim C4, as amended. \<open>resetCamera\<close>, from any capture state, stops every track of
  the held stream once, drops the stream and the video source, clears the captured flag
  and shows the start controls: the camera is Idle. A second reset stops nothing more.
  The reset sends no notification and leaves the form controller as it is. Page teardown
  (\<open>destroy\<close>, \<open>beforeunload\<close>) is the same reset. In the reset flow of the form,
  the form controller itself clears its image and disables the submit button, then the
  camera is reset with the same effects.
\<close>

theorem camera_reset_releases_stream:
  assumes "cameraApp w = Some cam"
  shows "(\<exists>cam'. cameraApp (resetCamera w) = Some cam' \<and>
            capture_state cam' = Idle \<and> stream cam' = None \<and> video_srcObject cam' = None \<and>
            \<not> isCaptured cam' \<and> \<not> startCameraBtn_hidden cam' \<and>
            capturePhotoBtn_hidden cam' \<and> retakePhotoBtn_hidden cam') \<and>
         effects (resetCamera w) =
           effects w @ map TrackStop (case stream cam of None \<Rightarrow> [] | Some s \<Rightarrow> s) \<and>
         effects (resetCamera (resetCamera w)) = effects (resetCamera w) \<and>
         smartFormApp (resetCamera w) = smartFormApp w \<and>
         destroy w = resetCamera w \<and> beforeunload w = resetCamera w \<and>
         (\<forall>app. smartFormApp w = Some app \<longrightarrow>
            (\<exists>app'. smartFormApp (handleFormReset w) = Some app' \<and>
               capturedImageData app' = Null \<and> submitBtn_disabled app') \<and>
            cameraApp (handleFormReset w) = cameraApp (resetCamera w) \<and>
            effects (handleFormReset w) = effects (resetCamera w))"
proof -
  note first = resetCamera_eq [OF assms]
  have again: "cameraApp (resetCamera w) = Some (cam\<lparr>stream := None, video_hidden := False,
                  capturedImage_hidden := True, isCaptured := False,
                  startCameraBtn_hidden := False, capturePhotoBtn_hidden := True,
                  retakePhotoBtn_hidden := True,
                  cameraStatus_text :=
                    js ''Click '' @ [34] @ js ''Start Camera'' @ [34] @ js '' to begin'',
                  cameraStatus_color := js ''var(--text-secondary)'',
                  video_srcObject := None\<rparr>)"
    by (simp add: first)
  have state: "\<exists>cam'. cameraApp (resetCamera w) = Some cam' \<and>
            capture_state cam' = Idle \<and> stream cam' = None \<and> video_srcObject cam' = None \<and>
            \<not> isCaptured cam' \<and> \<not> startCameraBtn_hidden cam' \<and>
            capturePhotoBtn_hidden cam' \<and> retakePhotoBtn_hidden cam'"
    by (simp add: first capture_state_def)
  have stops: "effects (resetCamera w) =
           effects w @ map TrackStop (case stream cam of None \<Rightarrow> [] | Some s \<Rightarrow> s)"
    by (simp add: first)
  have once: "effects (resetCamera (resetCamera w)) = effects (resetCamera w)"
    by (simp add: resetCamera_eq [OF again])
  have app: "smartFormApp (resetCamera w) = smartFormApp w"
    by (simp add: first)
  have teardown: "destroy w = resetCamera w \<and> beforeunload w = resetCamera w"
    using assms by (simp add: destroy_def beforeunload_def)
  have form_reset: "\<forall>app. smartFormApp w = Some app \<longrightarrow>
            (\<exists>app'. smartFormApp (handleFormReset w) = Some app' \<and>
               capturedImageData app' = Null \<and> submitBtn_disabled app') \<and>
            cameraApp (handleFormReset w) = cameraApp (resetCamera w) \<and>
            effects (handleFormReset w) = effects (resetCamera w)"
  proof (intro allI impI)
    fix app
    assume present: "smartFormApp w = Some app"
    from handleFormReset_eq [OF present assms] obtain app' where
      reset: "handleFormReset w = resetCamera (w\<lparr>smartFormApp := Some app'\<rparr>)"
      and cleared: "capturedImageData app' = Null" "submitBtn_disabled app'"
      by blast
    have cam: "cameraApp (w\<lparr>smartFormApp := Some app'\<rparr>) = Some cam"
      using assms by simp
    from cleared show "(\<exists>app'. smartFormApp (handleFormReset w) = Some app' \<and>
               capturedImageData app' = Null \<and> submitBtn_disabled app') \<and>
            cameraApp (handleFormReset w) = cameraApp (resetCamera w) \<and>
            effects (handleFormReset w) = effects (resetCamera w)"
      by (simp add: reset resetCamera_eq [OF cam] first)
  qed
  from state stops once app teardown form_reset show ?thesis
    by (intro conjI) simp_all
qed

theorem camera_reset_releases_stream_witness:
  "cameraApp sample_window = Some sample_camera \<and>
   effects (resetCamera sample_window) = [TrackStop 0, TrackStop 1] \<and>
   effects (resetCamera (resetCamera sample_window)) = [TrackStop 0, TrackStop 1] \<and>
   map_option capture_state (cameraApp (resetCamera sample_window)) = Some Idle \<and>
   smartFormApp sample_window = Some sample_app \<and>
   map_option capturedImageData (smartFormApp (handleFormReset sample_window)) = Some Null \<and>
   effects (handleFormReset sample_window) = [TrackStop 0, TrackStop 1]"
proof -
  have a: "cameraApp sample_window = Some sample_camera"
    by (simp add: sample_window_def)
  have s: "stream sample_camera = Some [0, 1]"
    by (simp add: sample_camera_def)
  note main = camera_reset_releases_stream [OF a]
  from main [THEN conjunct1] have idle:
    "map_option capture_state (cameraApp (resetCamera sample_window)) = Some Idle"
    by auto
  from main [THEN conjunct2, THEN conjunct1] s
  have first: "effects (resetCamera sample_window) = [TrackStop 0, TrackStop 1]"
    by (simp add: sample_window_effects)
  from main [THEN conjunct2, THEN conjunct2, THEN conjunct1] first
  have twice: "effects (resetCamera (resetCamera sample_window)) = [TrackStop 0, TrackStop 1]"
    by simp
  from main [THEN conjunct2, THEN conjunct2, THEN conjunct2, THEN conjunct2, THEN conjunct2,
      THEN conjunct2] sample_window_app
  have "(\<exists>app'. smartFormApp (handleFormReset sample_window) = Some app' \<and>
           capturedImageData app' = Null \<and> submitBtn_disabled app') \<and>
        cameraApp (handleFormReset sample_window) = cameraApp (resetCamera sample_window) \<and>
        effects (handleFormReset sample_window) = effects (resetCamera sample_window)"
    by blast
  with first have
    "map_option capturedImageData (smartFormApp (handleFormReset sample_window)) = Some Null"
    and "effects (handleFormReset sample_window) = [TrackStop 0, TrackStop 1]"
    by auto
  with a idle first twice sample_window_app show ?thesis by simp
qed

text \<open>
  The claim as stated has the reset clear the image and notify the form controller. After
  \<open>resetCamera\<close> in the Captured state the form controller still holds the image, and
  the only effects are the two tracks stopped; page teardown does the same.
\<close>

theorem camera_reset_counterexample:
  "smartFormApp (resetCamera sample_window) = Some sample_app \<and>
   capturedImageData sample_app = Str sample_image \<and>
   effects (resetCamera sample_window) = [TrackStop 0, TrackStop 1] \<and>
   beforeunload sample_window = resetCamera sample_window"
proof -
  have a: "cameraApp sample_window = Some sample_camera"
    by (simp add: sample_window_def)
  note reset = resetCamera_eq [OF a]
  have "smartFormApp (resetCamera sample_window) = Some sample_app"
    by (simp add: reset sample_window_app)
  moreover have "capturedImageData sample_app = Str sample_image"
    by (simp add: sample_app_def)
  moreover have "effects (resetCamera sample_window) = [TrackStop 0, TrackStop 1]"
    by (simp add: reset sample_window_effects sample_camera_def)
  moreover have "beforeunload sample_window = resetCamera sample_window"
    using a by (simp add: beforeunload_def destroy_def)
  ultimately show ?thesis by simp
qed

section \<open>The capture lifecycle\<close>

text \<open>
  Start, capture, retake and reset take the camera from Idle through Active, Captured
  and Active back to Idle; the stream acquired at the start is stopped once, at the
  reset.
\<close>

lemma startCamera_acquired:
  assumes "cameraApp w = Some cam"
  shows "startCamera (Inr s) w =
           w\<lparr>cameraApp := Some (cam\<lparr>stream := Some s, video_srcObject := Some s,
                  video_onloadedmetadata := True,
                  cameraStatus_text := js ''Requesting camera access...'',
                  cameraStatus_color := js ''var(--text-secondary)''\<rparr>),
              effects := effects w @ [GetUserMedia 1280 960 (js ''user'')]\<rparr>"
  using assms
  by (simp add: startCamera_def Let_def updateStatus_def info_ne_error emit_def)

lemma startCamera_refused:
  assumes "cameraApp w = Some cam"
  shows "map_option stream (cameraApp (startCamera (Inl error) w)) = Some (stream cam) \<and>
         effects (startCamera (Inl error) w) = effects w @ [GetUserMedia 1280 960 (js ''user'')]"
  using assms
  by (simp add: startCamera_def Let_def updateStatus_def emit_def)

lemma capturePhoto_taken:
  assumes "cameraApp w = Some cam" and "smartFormApp w = Some app"
  shows "capturePhoto (Inr imageData) w =
           w\<lparr>cameraApp := Some (cam\<lparr>capturedImage_src := Str imageData,
                  capturedImage_hidden := False, video_hidden := True, isCaptured := True,
                  startCameraBtn_hidden := True, capturePhotoBtn_hidden := True,
                  retakePhotoBtn_hidden := False,
                  cameraStatus_text := js ''Photo captured successfully!'',
                  cameraStatus_color := js ''var(--text-secondary)''\<rparr>),
              smartFormApp := Some (app\<lparr>capturedImageData := Str imageData,
                  submitBtn_disabled := \<not> submit_ready (app\<lparr>capturedImageData := Str imageData\<rparr>)\<rparr>),
              effects := effects w @ [ImageCaptured (Str imageData)]\<rparr>"
  using assms
  by (simp add: capturePhoto_def Let_def showRetakeControls_def updateStatus_def info_ne_error
      onImageCaptured_def emit_def checkFormValidity_snd)

lemma capture_lifecycle:
  assumes "cameraApp w = Some cam" and "smartFormApp w = Some app"
    and "capture_state cam = Idle" and "\<not> isCaptured cam"
  shows "map_option capture_state (cameraApp (startCamera (Inr s) w)) = Some Active"
    and "map_option capture_state (cameraApp (capturePhoto (Inr img) (startCamera (Inr s) w))) =
           Some Captured"
    and "map_option capture_state
           (cameraApp (retakePhoto (capturePhoto (Inr img) (startCamera (Inr s) w)))) =
           Some Active"
    and "map_option capture_state
           (cameraApp (resetCamera (retakePhoto (capturePhoto (Inr img) (startCamera (Inr s) w))))) =
           Some Idle"
    and "effects (resetCamera (retakePhoto (capturePhoto (Inr img) (startCamera (Inr s) w)))) =
           effects w @
           [GetUserMedia 1280 960 (js ''user''), ImageCaptured (Str img), ImageCaptured Null] @
           map TrackStop s"
proof -
  let ?w1 = "startCamera (Inr s) w"
  let ?w2 = "capturePhoto (Inr img) ?w1"
  let ?w3 = "retakePhoto ?w2"
  note s1 = startCamera_acquired [OF assms(1), of s]
  have c1: "cameraApp ?w1 = Some (cam\<lparr>stream := Some s, video_srcObject := Some s,
                  video_onloadedmetadata := True,
                  cameraStatus_text := js ''Requesting camera access...'',
                  cameraStatus_color := js ''var(--text-secondary)''\<rparr>)"
    and a1: "smartFormApp ?w1 = Some app"
    using assms(2) by (simp_all add: s1)
  note s2 = capturePhoto_taken [OF c1 a1, of img]
  have c2: "cameraApp ?w2 = Some (cam\<lparr>stream := Some s, video_srcObject := Some s,
                  video_onloadedmetadata := True,
                  capturedImage_src := Str img,
                  capturedImage_hidden := False, video_hidden := True, isCaptured := True,
                  startCameraBtn_hidden := True, capturePhotoBtn_hidden := True,
                  retakePhotoBtn_hidden := False,
                  cameraStatus_text := js ''Photo captured successfully!'',
                  cameraStatus_color := js ''var(--text-secondary)''\<rparr>)"
    and a2: "smartFormApp ?w2 = Some (app\<lparr>capturedImageData := Str img,
                  submitBtn_disabled := \<not> submit_ready (app\<lparr>capturedImageData := Str img\<rparr>)\<rparr>)"
    by (simp_all add: s2)
  note s3 = retakePhoto_eq [OF c2 a2]
  have c3: "\<exists>cam3. cameraApp ?w3 = Some cam3 \<and> stream cam3 = Some s \<and> \<not> isCaptured cam3"
    by (simp add: s3)
  then obtain cam3 where c3': "cameraApp ?w3 = Some cam3" "stream cam3 = Some s" "\<not> isCaptured cam3"
    by blast
  note s4 = resetCamera_eq [OF c3'(1)]
  from assms(4) show "map_option capture_state (cameraApp ?w1) = Some Active"
    by (simp add: c1 capture_state_def)
  show "map_option capture_state (cameraApp ?w2) = Some Captured"
    by (simp add: c2 capture_state_def)
  from c3' show "map_option capture_state (cameraApp ?w3) = Some Active"
    by (simp add: capture_state_def)
  show "map_option capture_state (cameraApp (resetCamera ?w3)) = Some Idle"
    by (simp add: s4 capture_state_def)
  have e1: "effects ?w1 = effects w @ [GetUserMedia 1280 960 (js ''user'')]"
    by (simp add: s1)
  have e2: "effects ?w2 = effects ?w1 @ [ImageCaptured (Str img)]"
    by (simp add: s2)
  have e3: "effects ?w3 = effects ?w2 @ [ImageCaptured Null]"
    by (simp add: s3)
  have e4: "effects (resetCamera ?w3) = effects ?w3 @ map TrackStop s"
    by (simp add: s4 c3')
  show "effects (resetCamera ?w3) =
           effects w @
           [GetUserMedia 1280 960 (js ''user''), ImageCaptured (Str img), ImageCaptured Null] @
           map TrackStop s"
    by (simp add: e1 e2 e3 e4)
qed

end
